theory Spec2Isabelle
  imports Complex_Main
begin

text \<open>
  A model of \<open>solar_crowler.py\<close>, the crawler that scans listing pages for products with
  a zero price, records the new ones in \<open>results.json\<close> and sends a notification.

  The browser, the file system, the environment and the SMTP server are the inputs of the
  model: what the browser does for a URL is a \<open>page\<close>, the state of the file is a
  \<open>store_file\<close>, the environment is a map from names to texts. Exceptions are values of the
  type \<open>error\<close>; a function that may raise returns \<open>error + 'a\<close>. The model starts once the
  driver is built; \<open>build_driver\<close> and \<open>load_env_file\<close> are not part of it, and writing the
  file is taken to succeed. Of the printed lines only those of the crawl are kept. The text
  of the notification message is not modelled; whether the email library raises while the
  message is built is a parameter, a \<open>message_builder\<close>.
\<close>

section \<open>Python strings and numbers used by the crawler\<close>

text \<open>
  A Python \<open>str\<close> is a sequence of Unicode code points, so it is modelled as a list of
  natural numbers. Program literals that are plain ASCII are written with \<open>ustr\<close>.
\<close>

type_synonym ustr = "nat list"

definition ustr :: "string \<Rightarrow> ustr" where
  "ustr s = map of_char s"

definition euro :: nat where
  "euro = 8364"

definition dollar :: nat where
  "dollar = 36"

definition comma :: nat where
  "comma = 44"

text \<open>
  The characters for which \<open>str.isspace\<close> holds; \<open>strip()\<close> and \<open>split()\<close> without
  arguments use this set.
\<close>

definition is_space :: "nat \<Rightarrow> bool" where
  "is_space c \<longleftrightarrow>
     (9 \<le> c \<and> c \<le> 13) \<or> (28 \<le> c \<and> c \<le> 32) \<or> c = 133 \<or> c = 160 \<or> c = 5760 \<or>
     (8192 \<le> c \<and> c \<le> 8202) \<or> c = 8232 \<or> c = 8233 \<or> c = 8239 \<or> c = 8287 \<or> c = 12288"

definition py_strip :: "ustr \<Rightarrow> ustr" where
  "py_strip s = rev (dropWhile is_space (rev (dropWhile is_space s)))"

text \<open>\<open>s.replace(c, "")\<close> for a one-character \<open>c\<close>: every occurrence is removed.\<close>

definition py_remove :: "nat \<Rightarrow> ustr \<Rightarrow> ustr" where
  "py_remove c s = filter (\<lambda>x. x \<noteq> c) s"

text \<open>\<open>s.split()\<close>: the maximal runs of non-whitespace characters, in order.\<close>

fun split_from :: "ustr \<Rightarrow> ustr \<Rightarrow> ustr list" where
  "split_from cur [] = (if cur = [] then [] else [cur])"
| "split_from cur (c # cs) =
     (if is_space c then (if cur = [] then split_from [] cs else cur # split_from [] cs)
      else split_from (cur @ [c]) cs)"

definition py_split :: "ustr \<Rightarrow> ustr list" where
  "py_split s = split_from [] s"

text \<open>
  \<open>float\<close> and \<open>int\<close> do not read a text as \<open>strip()\<close> does. Unless the text is all
  ASCII they first replace every non-ASCII whitespace character by a space and every non-ASCII
  decimal digit by its ASCII digit; any other character from U+007F on ends the text with a
  question mark. Then they skip the whitespace of C at both ends: tab to carriage return, and
  space. The separators U+001C to U+001F, which \<open>strip()\<close> removes, are no whitespace here.
\<close>

definition is_c_space :: "nat \<Rightarrow> bool" where
  "is_c_space c \<longleftrightarrow> (9 \<le> c \<and> c \<le> 13) \<or> c = 32"

definition c_strip :: "ustr \<Rightarrow> ustr" where
  "c_strip s = rev (dropWhile is_c_space (rev (dropWhile is_c_space s)))"

text \<open>
  The code point of the digit zero of every set of decimal digits (general category Nd) of
  Unicode 14.0.0, the version of CPython 3.11; the nine code points after a zero are the
  digits one to nine of its set.
\<close>

definition unicode_zeros :: "nat list" where
  "unicode_zeros =
     [48, 1632, 1776, 1984, 2406, 2534, 2662, 2790, 2918, 3046, 3174, 3302, 3430, 3558, 3664,
      3792, 3872, 4160, 4240, 6112, 6160, 6470, 6608, 6784, 6800, 6992, 7088, 7232, 7248,
      42528, 43216, 43264, 43472, 43504, 43600, 44016, 65296, 66720, 68912, 69734, 69872,
      69942, 70096, 70384, 70736, 70864, 71248, 71360, 71472, 71904, 72016, 72784, 73040,
      73120, 92768, 92864, 93008, 120782, 120792, 120802, 120812, 120822, 123200, 123632,
      125264, 130032]"

definition unicode_decimal :: "nat \<Rightarrow> nat option" where
  "unicode_decimal c =
     (case find (\<lambda>z. z \<le> c \<and> c < z + 10) unicode_zeros of
        None \<Rightarrow> None
      | Some z \<Rightarrow> Some (c - z))"

fun to_ascii :: "ustr \<Rightarrow> ustr" where
  "to_ascii [] = []"
| "to_ascii (c # cs) =
     (if c < 127 then c # to_ascii cs
      else if is_space c then 32 # to_ascii cs
      else (case unicode_decimal c of
              None \<Rightarrow> [63]
            | Some d \<Rightarrow> (48 + d) # to_ascii cs))"

definition transform_decimal_and_space :: "ustr \<Rightarrow> ustr" where
  "transform_decimal_and_space s = (if list_all (\<lambda>c. c < 128) s then s else to_ascii s)"

text \<open>
  The result of \<open>float(s)\<close>. A finite result is kept as the exact value of the decimal
  literal; the program only tests the result against \<open>0.0\<close>, and the double nearest to
  a rational \<open>q\<close> is zero exactly when \<open>|q| \<le> 2^-1075\<close> (round to nearest, ties to even),
  which is what \<open>eq_zero\<close> decides.
\<close>

datatype pyfloat = Finite rat | PosInf | NegInf | NaN

fun eq_zero :: "pyfloat \<Rightarrow> bool" where
  "eq_zero (Finite q) = (\<bar>q\<bar> * 2 ^ 1075 \<le> 1)"
| "eq_zero PosInf = False"
| "eq_zero NegInf = False"
| "eq_zero NaN = False"

fun negate :: "pyfloat \<Rightarrow> pyfloat" where
  "negate (Finite q) = Finite (- q)"
| "negate PosInf = NegInf"
| "negate NegInf = PosInf"
| "negate NaN = NaN"

definition is_digit :: "nat \<Rightarrow> bool" where
  "is_digit c \<longleftrightarrow> 48 \<le> c \<and> c \<le> 57"

definition to_lower :: "nat \<Rightarrow> nat" where
  "to_lower c = (if 65 \<le> c \<and> c \<le> 90 then c + 32 else c)"

text \<open>
  A run of digits in which single underscores may stand between two digits; returns the
  digit values read so far and the unread rest.
\<close>

fun digitpart :: "nat list \<Rightarrow> ustr \<Rightarrow> nat list \<times> ustr" where
  "digitpart acc [] = (acc, [])"
| "digitpart acc (c # cs) =
     (if is_digit c then digitpart (acc @ [c - 48]) cs
      else if c = 95 \<and> acc \<noteq> [] \<and> (case cs of [] \<Rightarrow> False | d # _ \<Rightarrow> is_digit d)
      then digitpart acc cs
      else (acc, c # cs))"

definition digits_value :: "nat list \<Rightarrow> nat" where
  "digits_value ds = foldl (\<lambda>a d. 10 * a + d) 0 ds"

definition scale10 :: "rat \<Rightarrow> int \<Rightarrow> rat" where
  "scale10 q e = (if 0 \<le> e then q * 10 ^ nat e else q / 10 ^ nat (- e))"

definition parse_exponent :: "ustr \<Rightarrow> int option" where
  "parse_exponent s =
     (case s of
        [] \<Rightarrow> Some 0
      | c # r \<Rightarrow>
          if c = 101 \<or> c = 69 then
            (let neg = (case r of [] \<Rightarrow> False | x # _ \<Rightarrow> x = 45);
                 r' = (case r of [] \<Rightarrow> [] | x # xs \<Rightarrow> if x = 43 \<or> x = 45 then xs else r);
                 (ed, rest) = digitpart [] r'
             in if ed = [] \<or> rest \<noteq> [] then None
                else Some (if neg then - int (digits_value ed) else int (digits_value ed)))
          else None)"

definition parse_unsigned :: "ustr \<Rightarrow> pyfloat option" where
  "parse_unsigned s =
     (let l = map to_lower s in
      if l = ustr ''inf'' \<or> l = ustr ''infinity'' then Some PosInf
      else if l = ustr ''nan'' then Some NaN
      else
        (let (ip, r1) = digitpart [] s;
             (fp, r2) = (case r1 of [] \<Rightarrow> ([], [])
                         | c # r \<Rightarrow> if c = 46 then digitpart [] r else ([], r1))
         in if ip = [] \<and> fp = [] then None
            else (case parse_exponent r2 of
                    None \<Rightarrow> None
                  | Some e \<Rightarrow>
                      Some (Finite (scale10
                        (of_nat (digits_value ip) + of_nat (digits_value fp) / 10 ^ length fp) e)))))"

text \<open>\<open>float(s)\<close>; \<open>None\<close> stands for the \<open>ValueError\<close> of an unparseable text.\<close>

definition py_float :: "ustr \<Rightarrow> pyfloat option" where
  "py_float s =
     (case c_strip (transform_decimal_and_space s) of
        [] \<Rightarrow> None
      | c # r \<Rightarrow>
          if c = 43 then parse_unsigned r
          else if c = 45 then map_option negate (parse_unsigned r)
          else parse_unsigned (c # r))"

section \<open>Exceptions\<close>

datatype error =
    NoSuchElementException
  | TimeoutException
  | WebDriverException
  | ValueError
  | AttributeError
  | OSError
  | JSONDecodeError
  | RecursionError

section \<open>Listing extractor\<close>

text \<open>
  A \<open>WebElement\<close> as the extractor sees it: its visible text, its attributes, and for
  each CSS selector the first descendant that \<open>find_element\<close> returns for it.
\<close>

datatype element =
  Element (elem_text: ustr) (elem_attrs: "(string \<times> ustr) list")
          (elem_subs: "(string \<times> element) list")

record listing =
  title :: ustr
  price_text :: ustr
  link :: "ustr option"

text \<open>
  \<open>find_element\<close> raises \<open>NoSuchElementException\<close> when nothing matches. Every call is
  recorded: the first component of the result lists the selectors queried.
\<close>

definition find_element :: "element \<Rightarrow> string \<Rightarrow> string list \<times> (error + element)" where
  "find_element e sel =
     ([sel], case map_of (elem_subs e) sel of
               None \<Rightarrow> Inl NoSuchElementException
             | Some c \<Rightarrow> Inr c)"

definition get_attribute :: "element \<Rightarrow> string \<Rightarrow> ustr option" where
  "get_attribute e name = map_of (elem_attrs e) name"

text \<open>
  The first \<open>try\<close> block of \<open>_read_price_value\<close>, after the lookup of the hidden
  element: the value assigned to \<open>price_value\<close>. \<open>strip\<close> on a missing attribute
  raises \<open>AttributeError\<close>, \<open>float\<close> on an unparseable text raises \<open>ValueError\<close>; only
  \<open>NoSuchElementException\<close> is caught.
\<close>

definition hidden_value :: "error + element \<Rightarrow> error + pyfloat option" where
  "hidden_value h =
     (case h of
        Inl err \<Rightarrow> if err = NoSuchElementException then Inr None else Inl err
      | Inr hidden \<Rightarrow>
          (case get_attribute hidden ''textContent'' of
             None \<Rightarrow> Inl AttributeError
           | Some t \<Rightarrow>
               (let hidden_text = py_strip t in
                if hidden_text \<noteq> [] then
                  (case py_float (py_remove comma hidden_text) of
                     None \<Rightarrow> Inl ValueError
                   | Some v \<Rightarrow> Inr (Some v))
                else Inr None)))"

text \<open>The second \<open>try\<close> block, given the \<open>price_value\<close> of the first.\<close>

definition visible_value ::
  "error + element \<Rightarrow> pyfloat option \<Rightarrow> error + (ustr option \<times> pyfloat option)" where
  "visible_value v price_value =
     (case v of
        Inl err \<Rightarrow> if err = NoSuchElementException then Inr (None, price_value) else Inl err
      | Inr visible \<Rightarrow>
          (let ptext = py_strip (elem_text visible) in
           if price_value = None \<and> ptext \<noteq> [] then
             (let numeric = py_split (py_remove comma (py_remove dollar (py_remove euro ptext)))
              in if numeric \<noteq> [] then
                   (case py_float (last numeric) of
                      None \<Rightarrow> Inl ValueError
                    | Some x \<Rightarrow> Inr (Some ptext, Some x))
                 else Inr (Some ptext, price_value))
           else Inr (Some ptext, price_value)))"

definition read_price_value ::
  "element \<Rightarrow> string list \<times> (error + (ustr option \<times> pyfloat option))" where
  "read_price_value e =
     (let (q1, h) = find_element e ''.price_for_filter'' in
      case hidden_value h of
        Inl err \<Rightarrow> (q1, Inl err)
      | Inr price_value \<Rightarrow>
          (let (q2, v) = find_element e ''.wcpbc-price'' in
           (q1 @ q2, visible_value v price_value)))"

definition default_price_text :: ustr where
  "default_price_text = euro # ustr ''0.00''"

definition extract_listing_info :: "element \<Rightarrow> string list \<times> (error + listing option)" where
  "extract_listing_info e =
     (let (q, r) = read_price_value e in
      case r of
        Inl err \<Rightarrow> (q, Inl err)
      | Inr (ptext, price_value) \<Rightarrow>
          (case price_value of
             None \<Rightarrow> (q, Inr None)
           | Some pv \<Rightarrow>
               if \<not> eq_zero pv then (q, Inr None)
               else
                 (let (q3, l) = find_element e ''a.totallink'' in
                  case l of
                    Inl err \<Rightarrow> (q @ q3, Inl err)
                  | Inr link_element \<Rightarrow>
                      (let (q4, t) = find_element e ''.item-compare-title'' in
                       case t of
                         Inl err \<Rightarrow> (q @ q3 @ q4, Inl err)
                       | Inr title_element \<Rightarrow>
                           (q @ q3 @ q4,
                            Inr (Some \<lparr>title = py_strip (elem_text title_element),
                                       price_text =
                                         (case ptext of
                                            None \<Rightarrow> default_price_text
                                          | Some p \<Rightarrow> if p = [] then default_price_text else p),
                                       link = get_attribute link_element ''href''\<rparr>))))))"

text \<open>
  The loop over the tiles of a page (\<open>collect_free_listings_on_url\<close>, after the page is
  loaded): an exception of \<open>extract_listing_info\<close> is not caught and ends the loop.
\<close>

fun scan_items :: "element list \<Rightarrow> listing list \<Rightarrow> error + listing list" where
  "scan_items [] free_entries = Inr free_entries"
| "scan_items (item # items) free_entries =
     (case snd (extract_listing_info item) of
        Inl err \<Rightarrow> Inl err
      | Inr None \<Rightarrow> scan_items items free_entries
      | Inr (Some l) \<Rightarrow> scan_items items (free_entries @ [l]))"

section \<open>Page fetcher\<close>

text \<open>
  What the browser does for a URL: \<open>driver.get\<close> times out, fails with another
  \<open>WebDriverException\<close> (with its message), or loads a page. A loaded page has or lacks the
  listings container, reports a document height at each successive reading, and holds the
  tiles that \<open>find_elements\<close> returns.
\<close>

datatype page =
    LoadTimeout
  | LoadFailed ustr
  | Loaded (has_container: bool) (height_at: "nat \<Rightarrow> nat") (tiles: "element list")

type_synonym web = "string \<Rightarrow> page"

datatype log_line =
    TimedOutLoading string
  | FailedToLoad string ustr
  | PageScanned nat nat
  | UrlScanned string nat

definition wait_for_listings :: "page \<Rightarrow> error + unit" where
  "wait_for_listings p =
     (case p of
        Loaded c h its \<Rightarrow> if c then Inr () else Inl TimeoutException
      | _ \<Rightarrow> Inl TimeoutException)"

text \<open>
  The loop of \<open>scroll_page\<close>: \<open>k\<close> counts the readings of the height made so far. The loop
  need not end; \<open>None\<close> is a scroll that never returns. The result is the number of readings.
\<close>

partial_function (option) scroll_loop :: "(nat \<Rightarrow> nat) \<Rightarrow> nat \<Rightarrow> nat \<Rightarrow> nat option" where
  "scroll_loop h k prev_height =
     (if h (Suc k) = prev_height then Some (Suc k)
      else scroll_loop h (Suc k) (h (Suc k)))"

definition scroll_page :: "(nat \<Rightarrow> nat) \<Rightarrow> nat option" where
  "scroll_page h = scroll_loop h 0 (h 0)"

definition collect_free_listings_on_url ::
  "web \<Rightarrow> string \<Rightarrow> (log_line list \<times> (error + listing list)) option" where
  "collect_free_listings_on_url w url =
     (case w url of
        LoadTimeout \<Rightarrow> Some ([TimedOutLoading url], Inr [])
      | LoadFailed msg \<Rightarrow> Some ([FailedToLoad url msg], Inr [])
      | Loaded c h its \<Rightarrow>
          (case wait_for_listings (Loaded c h its) of
             Inl err \<Rightarrow> Some ([], Inl err)
           | Inr _ \<Rightarrow>
               (case scroll_page h of
                  None \<Rightarrow> None
                | Some _ \<Rightarrow> Some ([], scan_items its []))))"

text \<open>The decimal text of a number, as \<open>str.format\<close> writes it.\<close>

definition digit_char :: "nat \<Rightarrow> char" where
  "digit_char d = ''0123456789'' ! d"

function show_nat :: "nat \<Rightarrow> string" where
  "show_nat n =
     (if n < 10 then [digit_char n]
      else show_nat (n div 10) @ [digit_char (n mod 10)])"
  by pat_completeness auto
termination
  by (relation "measure id") auto

declare show_nat.simps [simp del]

definition LISTING_URL_TEMPLATE :: "nat \<Rightarrow> string" where
  "LISTING_URL_TEMPLATE n = ''https://www.solar-guitars.com/shop/page/'' @ show_nat n @ ''/''"

definition PAGE_RANGE :: "nat list" where
  "PAGE_RANGE = [1..<11]"

definition STATIC_LISTING_URLS :: "string list" where
  "STATIC_LISTING_URLS =
     [''https://www.solar-guitars.com/categorie-produit/pedals/'',
      ''https://www.solar-guitars.com/outlet-store/'',
      ''https://www.solar-guitars.com/categorie-produit/accessories/'']"

definition collect_free_listings_on_page ::
  "web \<Rightarrow> nat \<Rightarrow> (log_line list \<times> (error + listing list)) option" where
  "collect_free_listings_on_page w page_number =
     collect_free_listings_on_url w (LISTING_URL_TEMPLATE page_number)"

text \<open>
  The two \<open>for\<close> loops of \<open>main\<close> have the same shape: fetch, extend \<open>run_listings\<close>, print
  a line. \<open>crawl_loop\<close> is that shape, with the fetch and the printed line as parameters.
\<close>

fun crawl_loop ::
  "('t \<Rightarrow> (log_line list \<times> (error + listing list)) option) \<Rightarrow> ('t \<Rightarrow> nat \<Rightarrow> log_line) \<Rightarrow>
   't list \<Rightarrow> listing list \<Rightarrow> (log_line list \<times> (error + listing list)) option" where
  "crawl_loop fetch report [] run_listings = Some ([], Inr run_listings)"
| "crawl_loop fetch report (t # ts) run_listings =
     (case fetch t of
        None \<Rightarrow> None
      | Some (lg, Inl err) \<Rightarrow> Some (lg, Inl err)
      | Some (lg, Inr found) \<Rightarrow>
          (case crawl_loop fetch report ts (run_listings @ found) of
             None \<Rightarrow> None
           | Some (lg', r) \<Rightarrow> Some (lg @ report t (length found) # lg', r)))"

definition crawl :: "web \<Rightarrow> (log_line list \<times> (error + listing list)) option" where
  "crawl w =
     (case crawl_loop (collect_free_listings_on_page w) PageScanned PAGE_RANGE [] of
        None \<Rightarrow> None
      | Some (lg, Inl err) \<Rightarrow> Some (lg, Inl err)
      | Some (lg, Inr run_listings) \<Rightarrow>
          (case crawl_loop (collect_free_listings_on_url w) UrlScanned STATIC_LISTING_URLS
                  run_listings of
             None \<Rightarrow> None
           | Some (lg', r) \<Rightarrow> Some (lg @ lg', r)))"

section \<open>Result store\<close>

text \<open>
  Python values as \<open>json.loads\<close> returns them and \<open>json.dumps\<close> accepts them; \<open>JNull\<close> is
  \<open>None\<close>. A \<open>dict\<close> is an association list, read with \<open>map_of\<close>.
\<close>

datatype json =
    JNull
  | JBool bool
  | JNum rat
  | JStr ustr
  | JList "json list"
  | JObj "(ustr \<times> json) list"

fun is_dict :: "json \<Rightarrow> bool" where
  "is_dict (JObj d) = True"
| "is_dict _ = False"

fun is_str :: "json \<Rightarrow> bool" where
  "is_str (JStr s) = True"
| "is_str _ = False"

text \<open>\<open>entry.get(key)\<close>: \<open>None\<close> when the key is missing.\<close>

fun dict_get :: "json \<Rightarrow> ustr \<Rightarrow> json" where
  "dict_get (JObj d) key = (case map_of d key of None \<Rightarrow> JNull | Some v \<Rightarrow> v)"
| "dict_get _ key = JNull"

text \<open>The value of \<open>listing.link\<close>: a \<open>str\<close>, or \<open>None\<close> when the anchor has no \<open>href\<close>.\<close>

definition link_value :: "listing \<Rightarrow> json" where
  "link_value l = (case link l of None \<Rightarrow> JNull | Some s \<Rightarrow> JStr s)"

definition to_dict :: "listing \<Rightarrow> json" where
  "to_dict l =
     JObj [(ustr ''title'', JStr (title l)), (ustr ''price'', JStr (price_text l)),
           (ustr ''link'', link_value l)]"

text \<open>
  The file \<open>results.json\<close>: absent; not to be examined (\<open>stat\<close> fails with an
  \<open>OSError\<close> other than "not found", as in a directory that may not be searched);
  unreadable (\<open>OSError\<close>); not decodable (a \<open>ValueError\<close> that is no
  \<open>JSONDecodeError\<close>: the \<open>UnicodeDecodeError\<close> of \<open>read_text\<close>, or a number of more
  digits than \<open>int\<close> accepts); not JSON (\<open>JSONDecodeError\<close>); JSON nested deeper than the
  recursion limit lets \<open>json.loads\<close> follow (\<open>RecursionError\<close>, which is no
  \<open>ValueError\<close>); or holding the text of a JSON value that \<open>json.loads\<close> returns.
\<close>

datatype store_file =
    Missing
  | Inaccessible
  | Unreadable
  | Undecodable
  | Unparseable
  | TooDeep
  | Holds json

text \<open>
  \<open>RESULTS_PATH.exists()\<close>: false for an absent file; the \<open>OSError\<close> of a file that
  cannot be examined is raised again by \<open>exists\<close>.
\<close>

definition path_exists :: "store_file \<Rightarrow> error + bool" where
  "path_exists f =
     (case f of
        Missing \<Rightarrow> Inr False
      | Inaccessible \<Rightarrow> Inl OSError
      | _ \<Rightarrow> Inr True)"

text \<open>\<open>json.loads(RESULTS_PATH.read_text())\<close>.\<close>

definition read_json :: "store_file \<Rightarrow> error + json" where
  "read_json f =
     (case f of
        Missing \<Rightarrow> Inl OSError
      | Inaccessible \<Rightarrow> Inl OSError
      | Unreadable \<Rightarrow> Inl OSError
      | Undecodable \<Rightarrow> Inl ValueError
      | Unparseable \<Rightarrow> Inl JSONDecodeError
      | TooDeep \<Rightarrow> Inl RecursionError
      | Holds j \<Rightarrow> Inr j)"

fun is_list :: "json \<Rightarrow> bool" where
  "is_list (JList xs) = True"
| "is_list _ = False"

fun list_items :: "json \<Rightarrow> json list" where
  "list_items (JList xs) = xs"
| "list_items _ = []"

text \<open>The \<open>for entry in data\<close> loop of \<open>load_existing_results\<close>.\<close>

fun dedup_loop :: "json list \<Rightarrow> json list \<Rightarrow> json set \<Rightarrow> json list \<times> json set" where
  "dedup_loop [] deduped links = (deduped, links)"
| "dedup_loop (entry # data) deduped links =
     (if \<not> is_dict entry then dedup_loop data deduped links
      else
        (let lnk = dict_get entry (ustr ''link'') in
         if \<not> is_str lnk \<or> lnk = JStr [] \<or> lnk \<in> links then dedup_loop data deduped links
         else dedup_loop data (deduped @ [entry]) (insert lnk links)))"

text \<open>
  The test \<open>exists()\<close> stands before the \<open>try\<close>, so its exception is not caught; of the
  exceptions raised inside the \<open>try\<close> those of the \<open>except\<close> clause are caught.
\<close>

definition load_existing_results :: "store_file \<Rightarrow> error + (json list \<times> json set)" where
  "load_existing_results f =
     (case path_exists f of
        Inl err \<Rightarrow> Inl err
      | Inr ex \<Rightarrow>
          if \<not> ex then Inr ([], {})
          else
            (case (case read_json f of
                     Inl err \<Rightarrow> Inl err
                   | Inr data \<Rightarrow> if \<not> is_list data then Inl ValueError else Inr data) of
               Inl exc \<Rightarrow>
                 if exc = OSError \<or> exc = JSONDecodeError \<or> exc = ValueError then Inr ([], {})
                 else Inl exc
             | Inr data \<Rightarrow> Inr (dedup_loop (list_items data) [] {})))"

text \<open>After \<open>save_results\<close> the file holds the text of the list of entries.\<close>

definition save_results :: "json list \<Rightarrow> store_file" where
  "save_results entries = Holds (JList entries)"

section \<open>Notifier\<close>

type_synonym env = "string \<Rightarrow> ustr option"

text \<open>\<open>os.getenv(name, default)\<close> with a string default, and with a default that may be \<open>None\<close>.\<close>

definition getenv :: "env \<Rightarrow> string \<Rightarrow> ustr \<Rightarrow> ustr" where
  "getenv ev name dflt = (case ev name of None \<Rightarrow> dflt | Some v \<Rightarrow> v)"

definition getenv_opt :: "env \<Rightarrow> string \<Rightarrow> ustr option \<Rightarrow> ustr option" where
  "getenv_opt ev name dflt = (case ev name of None \<Rightarrow> dflt | Some v \<Rightarrow> Some v)"

text \<open>
  \<open>int(s)\<close> for a decimal text, read as \<open>float\<close> reads its text: surrounding whitespace,
  a sign, digits with single underscores between them. CPython 3.11 refuses a text of more
  than 4300 digits (the default of \<open>sys.int_max_str_digits\<close>); leading zeros count, the
  sign and the underscores do not. \<open>None\<close> stands for the \<open>ValueError\<close>.
\<close>

definition py_int :: "ustr \<Rightarrow> int option" where
  "py_int s =
     (let t = c_strip (transform_decimal_and_space s);
          neg = (case t of [] \<Rightarrow> False | c # _ \<Rightarrow> c = 45);
          body = (case t of [] \<Rightarrow> [] | c # r \<Rightarrow> if c = 43 \<or> c = 45 then r else t);
          (ds, rest) = digitpart [] body
      in if ds = [] \<or> rest \<noteq> [] \<or> 4300 < length ds then None
         else Some (if neg then - int (digits_value ds) else int (digits_value ds)))"

definition bool_from_env :: "env \<Rightarrow> string \<Rightarrow> bool \<Rightarrow> bool" where
  "bool_from_env ev name dflt =
     (case ev name of
        None \<Rightarrow> dflt
      | Some raw \<Rightarrow>
          map to_lower (py_strip raw) \<in> {ustr ''1'', ustr ''true'', ustr ''yes'', ustr ''on''})"

record settings =
  host :: ustr
  port :: int
  user :: ustr
  password :: ustr
  sender :: ustr
  recipient :: ustr
  use_tls :: bool

text \<open>\<open>not x\<close> for an optional string: \<open>None\<close> or empty.\<close>

fun falsy :: "ustr option \<Rightarrow> bool" where
  "falsy None = True"
| "falsy (Some s) = (s = [])"

definition get_email_settings :: "env \<Rightarrow> error + settings option" where
  "get_email_settings ev =
     (let h = getenv ev ''EMAIL_HOST'' (ustr ''smtp.gmail.com'') in
      case py_int (getenv ev ''EMAIL_PORT'' (ustr ''587'')) of
        None \<Rightarrow> Inl ValueError
      | Some p \<Rightarrow>
          (let u = ev ''EMAIL_USER'';
               pw = ev ''EMAIL_PASSWORD'';
               sndr = getenv_opt ev ''EMAIL_FROM'' u;
               rcpt = ev ''EMAIL_TO'';
               tls = bool_from_env ev ''EMAIL_USE_TLS'' True
           in if falsy u \<or> falsy pw then Inr None
              else
                (let sndr' = (if falsy sndr then u else sndr) in
                 if falsy rcpt then Inr None
                 else Inr (Some \<lparr>host = h, port = p, user = the u, password = the pw,
                                  sender = the sndr', recipient = the rcpt, use_tls = tls\<rparr>))))"

text \<open>
  The \<open>EmailMessage\<close> is built before the \<open>try\<close>: the email library may refuse a header
  text (a line break in the sender or the recipient, and more) or fail to encode the body, and
  that exception is not caught. Which exception, if any, the library raises for given settings
  and listings is a parameter of the model.
\<close>

type_synonym message_builder = "settings \<Rightarrow> json list \<Rightarrow> error option"

text \<open>
  What \<open>send_email_notification\<close> does with the SMTP server: nothing, or one session that
  tries to send a message about the given listings with the given settings. A failure inside
  the session is caught and printed, so it does not change the result.
\<close>

datatype smtp_action = NotAttempted | Attempted settings "json list"

definition send_email_notification ::
  "message_builder \<Rightarrow> env \<Rightarrow> json list \<Rightarrow> error + smtp_action" where
  "send_email_notification build ev listings =
     (case get_email_settings ev of
        Inl err \<Rightarrow> Inl err
      | Inr st \<Rightarrow>
          if st = None \<or> listings = [] then Inr NotAttempted
          else (case build (the st) listings of
                  Some err \<Rightarrow> Inl err
                | None \<Rightarrow> Inr (Attempted (the st) listings)))"

section \<open>Orchestrator\<close>

text \<open>The loop of \<open>main\<close> over \<open>run_listings\<close>.\<close>

fun merge_loop ::
  "listing list \<Rightarrow> json list \<Rightarrow> json set \<Rightarrow> json list \<Rightarrow> json list \<times> json set \<times> json list" where
  "merge_loop [] stored_entries known_links new_entries =
     (stored_entries, known_links, new_entries)"
| "merge_loop (l # run) stored_entries known_links new_entries =
     (if link_value l \<in> known_links then merge_loop run stored_entries known_links new_entries
      else
        (let entry = to_dict l in
         merge_loop run (stored_entries @ [entry]) (insert (link_value l) known_links)
           (new_entries @ [entry])))"

text \<open>
  The state in which a run ends: the store file, the progress lines printed by the crawl, the
  JSON array printed (if that point was reached), the argument with which the notifier was
  called (if it was), what the notifier did with the SMTP server, and the exception that
  ended the run (if any).
\<close>

record run_result =
  final_store :: store_file
  progress :: "log_line list"
  printed :: "json list option"
  notifier_arg :: "json list option"
  smtp :: smtp_action
  raised :: "error option"

text \<open>\<open>main\<close> from \<open>load_existing_results\<close> on, given the listings of the run.\<close>

definition merge_and_notify ::
  "message_builder \<Rightarrow> env \<Rightarrow> store_file \<Rightarrow> listing list \<Rightarrow> run_result" where
  "merge_and_notify build ev f run_listings =
     (case load_existing_results f of
        Inl err \<Rightarrow>
          \<lparr>final_store = f, progress = [], printed = None, notifier_arg = None,
           smtp = NotAttempted, raised = Some err\<rparr>
      | Inr (stored_entries, known_links) \<Rightarrow>
          (let (stored', known', new_entries) = merge_loop run_listings stored_entries known_links [];
               f' = save_results stored'
           in if new_entries \<noteq> [] then
                (case send_email_notification build ev new_entries of
                   Inl err \<Rightarrow>
                     \<lparr>final_store = f', progress = [], printed = Some new_entries,
                      notifier_arg = Some new_entries, smtp = NotAttempted, raised = Some err\<rparr>
                 | Inr a \<Rightarrow>
                     \<lparr>final_store = f', progress = [], printed = Some new_entries,
                      notifier_arg = Some new_entries, smtp = a, raised = None\<rparr>)
              else
                \<lparr>final_store = f', progress = [], printed = Some new_entries,
                 notifier_arg = None, smtp = NotAttempted, raised = None\<rparr>))"

text \<open>
  \<open>main\<close>, once the driver is built: the result is \<open>None\<close> when a scroll never returns. An
  exception during the crawl ends the run before the store is read or written; an exception of
  \<open>load_existing_results\<close> ends it before the store is written.
\<close>

definition main ::
  "message_builder \<Rightarrow> web \<Rightarrow> env \<Rightarrow> store_file \<Rightarrow> run_result option" where
  "main build w ev f =
     (case crawl w of
        None \<Rightarrow> None
      | Some (lg, Inl err) \<Rightarrow>
          Some \<lparr>final_store = f, progress = lg, printed = None, notifier_arg = None,
                smtp = NotAttempted, raised = Some err\<rparr>
      | Some (lg, Inr run_listings) \<Rightarrow>
          Some ((merge_and_notify build ev f run_listings)\<lparr>progress := lg\<rparr>))"

section \<open>Specification-level functions and example data\<close>

text \<open>The link under which an entry is known: \<open>entry.get("link")\<close>.\<close>

definition entry_link :: "json \<Rightarrow> json" where
  "entry_link e = dict_get e (ustr ''link'')"

text \<open>An entry that is an object with a non-empty string link.\<close>

definition valid_entry :: "json \<Rightarrow> bool" where
  "valid_entry e \<longleftrightarrow> is_dict e \<and> is_str (entry_link e) \<and> entry_link e \<noteq> JStr []"

text \<open>Deduplication by a key, the first occurrence of each key retained, order kept.\<close>

fun keep_first :: "('a \<Rightarrow> 'b) \<Rightarrow> 'a list \<Rightarrow> 'a list" where
  "keep_first k [] = []"
| "keep_first k (x # xs) = x # keep_first k (filter (\<lambda>y. k y \<noteq> k x) xs)"

text \<open>
  What the specification says loading returns for a stored list: the entries that are objects
  with a non-empty string link, deduplicated by link, first occurrence retained.
\<close>

definition spec_dedup :: "json list \<Rightarrow> json list" where
  "spec_dedup xs = keep_first entry_link (filter valid_entry xs)"

text \<open>
  What the specification says a run adds: the listings whose link is not known, in the order
  encountered, the first occurrence of each link within the run.
\<close>

definition spec_new_listings :: "json set \<Rightarrow> listing list \<Rightarrow> listing list" where
  "spec_new_listings known run =
     keep_first link_value (filter (\<lambda>l. link_value l \<notin> known) run)"

definition listing_A :: listing where
  "listing_A =
     \<lparr>title = ustr ''Guitar A'', price_text = euro # ustr ''0.00'',
      link = Some (ustr ''https://shop/a'')\<rparr>"

definition listing_B :: listing where
  "listing_B =
     \<lparr>title = ustr ''Guitar B'', price_text = euro # ustr ''0.00'',
      link = Some (ustr ''https://shop/b'')\<rparr>"

definition listing_C :: listing where
  "listing_C =
     \<lparr>title = ustr ''Guitar C'', price_text = euro # ustr ''0.00'',
      link = Some (ustr ''https://shop/c'')\<rparr>"

definition store_AB :: store_file where
  "store_AB = Holds (JList [to_dict listing_A, to_dict listing_B])"

text \<open>A stored list with a non-object, an object without link, and a duplicate link.\<close>

definition store_dups :: store_file where
  "store_dups =
     Holds (JList [to_dict listing_A, JStr (ustr ''junk''),
                   JObj [(ustr ''title'', JStr (ustr ''no link''))],
                   JObj [(ustr ''title'', JStr (ustr ''A again'')),
                         (ustr ''link'', JStr (ustr ''https://shop/a''))],
                   to_dict listing_B])"

definition no_env :: env where
  "no_env = (\<lambda>name. None)"

text \<open>An email library that accepts every message.\<close>

definition accepting :: message_builder where
  "accepting st listings = None"

text \<open>An email library that refuses a line feed in the sender or the recipient.\<close>

definition refusing_lf :: message_builder where
  "refusing_lf st listings =
     (if 10 \<in> set (sender st) \<or> 10 \<in> set (recipient st) then Some ValueError else None)"

text \<open>
  What the specification says the resolved price of a tile is: the parsed hidden field when it
  is present and parseable, otherwise the last whitespace-separated token of the visible price
  text after the removal of currency symbols and thousands separators.
\<close>

definition hidden_text :: "element \<Rightarrow> ustr option" where
  "hidden_text e =
     (case map_of (elem_subs e) ''.price_for_filter'' of
        None \<Rightarrow> None
      | Some h \<Rightarrow> get_attribute h ''textContent'')"

definition visible_tokens :: "element \<Rightarrow> ustr list" where
  "visible_tokens e =
     (case map_of (elem_subs e) ''.wcpbc-price'' of
        None \<Rightarrow> []
      | Some v \<Rightarrow>
          py_split (py_remove comma (py_remove dollar (py_remove euro (py_strip (elem_text v))))))"

definition spec_price_value :: "element \<Rightarrow> pyfloat option" where
  "spec_price_value e =
     (case (case hidden_text e of
              None \<Rightarrow> None
            | Some t \<Rightarrow> py_float (py_remove comma (py_strip t))) of
        Some v \<Rightarrow> Some v
      | None \<Rightarrow>
          (case visible_tokens e of
             [] \<Rightarrow> None
           | tok # toks \<Rightarrow> py_float (last (tok # toks))))"

text \<open>Example tiles.\<close>

definition anchor_g1 :: element where
  "anchor_g1 = Element [] [(''href'', ustr ''https://shop/g1'')] []"

definition title_g1 :: element where
  "title_g1 = Element (ustr '' Solar A1.6 '') [] []"

definition tile_sale :: element where
  "tile_sale =
     Element [] []
       [(''.wcpbc-price'', Element (euro # ustr ''1,200.00 '' @ euro # ustr ''0.00'') [] []),
        (''a.totallink'', anchor_g1), (''.item-compare-title'', title_g1)]"

definition tile_full_price :: element where
  "tile_full_price =
     Element [] []
       [(''.wcpbc-price'', Element (euro # ustr ''1,200.00'') [] []),
        (''a.totallink'', anchor_g1), (''.item-compare-title'', title_g1)]"

definition tile_hidden_zero :: element where
  "tile_hidden_zero =
     Element [] []
       [(''.price_for_filter'', Element [] [(''textContent'', ustr ''0'')] []),
        (''a.totallink'', anchor_g1), (''.item-compare-title'', title_g1)]"

text \<open>A hidden field that holds no number, beside a visible zero price.\<close>

definition tile_bad_hidden :: element where
  "tile_bad_hidden =
     Element [] []
       [(''.price_for_filter'', Element [] [(''textContent'', ustr ''n/a'')] []),
        (''.wcpbc-price'', Element (euro # ustr ''0.00'') [] []),
        (''a.totallink'', anchor_g1), (''.item-compare-title'', title_g1)]"

text \<open>No hidden field, and a visible price text without a number.\<close>

definition tile_sold_out :: element where
  "tile_sold_out =
     Element [] []
       [(''.wcpbc-price'', Element (ustr ''Sold out'') [] []),
        (''a.totallink'', anchor_g1), (''.item-compare-title'', title_g1)]"

text \<open>A zero price, a link, but no title element.\<close>

definition tile_no_title :: element where
  "tile_no_title =
     Element [] []
       [(''.wcpbc-price'', Element (euro # ustr ''0.00'') [] []),
        (''a.totallink'', anchor_g1)]"

text \<open>A zero price and a title; the anchor has no \<open>href\<close>.\<close>

definition tile_no_href :: element where
  "tile_no_href =
     Element [] []
       [(''.wcpbc-price'', Element (euro # ustr ''0.00'') [] []),
        (''a.totallink'', Element [] [] []), (''.item-compare-title'', title_g1)]"

text \<open>Example pages and browser behaviours.\<close>

definition page1 :: string where
  "page1 = ''https://www.solar-guitars.com/shop/page/1/''"

definition page2 :: string where
  "page2 = ''https://www.solar-guitars.com/shop/page/2/''"

definition steady :: "nat \<Rightarrow> nat" where
  "steady k = 900"

definition web_no_container :: web where
  "web_no_container url = (if url = page1 then Loaded False steady [] else LoadTimeout)"

definition web_wait_timeout :: web where
  "web_wait_timeout url =
     (if url = page1 then Loaded True steady [tile_sale]
      else if url = page2 then Loaded False steady []
      else LoadTimeout)"

definition web_missing_title :: web where
  "web_missing_title url =
     (if url = page1 then Loaded True steady [tile_sale, tile_no_title, tile_full_price]
      else LoadTimeout)"

definition web_mixed :: web where
  "web_mixed url =
     (if url = ''u1'' then LoadTimeout
      else if url = ''u2'' then LoadFailed (ustr ''refused'')
      else Loaded True steady [tile_sale])"

definition listing_g1 :: listing where
  "listing_g1 =
     \<lparr>title = ustr ''Solar A1.6'', price_text = euro # ustr ''1,200.00 '' @ euro # ustr ''0.00'',
      link = Some (ustr ''https://shop/g1'')\<rparr>"

text \<open>Example environments, and a page whose free tile has an anchor without \<open>href\<close>.\<close>

definition env_bad_port :: env where
  "env_bad_port name = (if name = ''EMAIL_PORT'' then Some (ustr ''smtp'') else None)"

definition env_no_user :: env where
  "env_no_user name =
     (if name = ''EMAIL_PASSWORD'' then Some (ustr ''secret'')
      else if name = ''EMAIL_TO'' then Some (ustr ''me@example.org'')
      else None)"

definition env_full :: env where
  "env_full name =
     (if name = ''EMAIL_USER'' then Some (ustr ''bot@example.org'')
      else if name = ''EMAIL_PASSWORD'' then Some (ustr ''secret'')
      else if name = ''EMAIL_TO'' then Some (ustr ''me@example.org'')
      else None)"

definition listing_no_href :: listing where
  "listing_no_href =
     \<lparr>title = ustr ''Solar A1.6'', price_text = euro # ustr ''0.00'', link = None\<rparr>"

definition web_no_href :: web where
  "web_no_href url =
     (if url = page1 then Loaded True steady [tile_no_href] else LoadTimeout)"

definition web_one_free :: web where
  "web_one_free url =
     (if url = page1 then Loaded True steady [tile_full_price, tile_sale] else LoadTimeout)"

section \<open>Properties of the result store and the merge\<close>

lemma dedup_loop_spec:
  "dedup_loop xs acc links =
     (acc @ keep_first entry_link (filter (\<lambda>e. valid_entry e \<and> entry_link e \<notin> links) xs),
      links \<union> entry_link ` {e \<in> set xs. valid_entry e})"
proof (induction xs arbitrary: acc links)
  case Nil
  then show ?case by simp
next
  case (Cons e xs)
  show ?case
  proof (cases "valid_entry e \<and> entry_link e \<notin> links")
    case True
    have f: "filter (\<lambda>y. entry_link y \<noteq> entry_link e)
               (filter (\<lambda>e. valid_entry e \<and> entry_link e \<notin> links) xs) =
             filter (\<lambda>x. valid_entry x \<and> entry_link x \<notin> insert (entry_link e) links) xs"
      by (auto simp: filter_filter intro: filter_cong)
    from True show ?thesis
      using Cons.IH [of "acc @ [e]" "insert (entry_link e) links"] f
      by (auto simp: valid_entry_def entry_link_def Let_def)
  next
    case False
    then show ?thesis
      using Cons.IH [of acc links]
      by (auto simp: valid_entry_def entry_link_def Let_def)
  qed
qed

lemma set_keep_first_subset: "set (keep_first k xs) \<subseteq> set xs"
  by (induction k xs rule: keep_first.induct) auto

lemma image_keep_first: "k ` set (keep_first k xs) = k ` set xs"
proof (induction k xs rule: keep_first.induct)
  case (1 k)
  then show ?case by simp
next
  case (2 k x xs)
  have "k ` set (x # xs) = insert (k x) (k ` set (filter (\<lambda>y. k y \<noteq> k x) xs))"
    by auto
  with 2 show ?case by simp
qed

lemma distinct_keep_first: "distinct (map k (keep_first k xs))"
proof (induction k xs rule: keep_first.induct)
  case (1 k)
  then show ?case by simp
next
  case (2 k x xs)
  have "k x \<notin> k ` set (keep_first k (filter (\<lambda>y. k y \<noteq> k x) xs))"
    by (auto simp: image_keep_first)
  with 2 show ?case by simp
qed

lemma entry_link_to_dict: "entry_link (to_dict l) = link_value l"
  by (simp add: entry_link_def to_dict_def ustr_def)

lemma merge_loop_spec:
  "merge_loop run stored known new =
     (stored @ map to_dict (keep_first link_value (filter (\<lambda>l. link_value l \<notin> known) run)),
      known \<union> link_value ` set run,
      new @ map to_dict (keep_first link_value (filter (\<lambda>l. link_value l \<notin> known) run)))"
proof (induction run arbitrary: stored known new)
  case Nil
  then show ?case by simp
next
  case (Cons l run)
  show ?case
  proof (cases "link_value l \<in> known")
    case True
    then show ?thesis using Cons.IH [of stored known new] by auto
  next
    case False
    have f: "filter (\<lambda>y. link_value y \<noteq> link_value l)
               (filter (\<lambda>l. link_value l \<notin> known) run) =
             filter (\<lambda>x. link_value x \<notin> insert (link_value l) known) run"
      by (auto simp: filter_filter intro: filter_cong)
    from False show ?thesis
      using Cons.IH [of "stored @ [to_dict l]" "insert (link_value l) known" "new @ [to_dict l]"] f
      by (auto simp: Let_def)
  qed
qed

lemma load_total:
  "f \<noteq> Inaccessible \<and> f \<noteq> TooDeep \<Longrightarrow>
   \<exists>stored known. load_existing_results f = Inr (stored, known)"
  by (cases f) (auto simp: load_existing_results_def path_exists_def read_json_def)

lemma load_fails:
  "load_existing_results Inaccessible = Inl OSError"
  "load_existing_results TooDeep = Inl RecursionError"
  by (simp_all add: load_existing_results_def path_exists_def read_json_def)

lemma load_returns:
  "load_existing_results f = Inr r \<Longrightarrow> f \<noteq> Inaccessible \<and> f \<noteq> TooDeep"
  using load_fails by auto

lemma load_list:
  "load_existing_results (Holds (JList xs)) =
     Inr (spec_dedup xs, set (map entry_link (spec_dedup xs)))"
  by (simp add: load_existing_results_def path_exists_def read_json_def dedup_loop_spec spec_dedup_def
      image_keep_first)

lemma load_distinct:
  assumes "load_existing_results f = Inr (stored, known)"
  shows "distinct (map entry_link stored) \<and> known = set (map entry_link stored)"
proof (cases "\<exists>xs. f = Holds (JList xs)")
  case True
  then obtain xs where "f = Holds (JList xs)" by blast
  with assms show ?thesis
    by (auto simp: load_list spec_dedup_def distinct_keep_first)
next
  case False
  from assms have nd: "f \<noteq> Inaccessible \<and> f \<noteq> TooDeep"
    by (rule load_returns)
  have "load_existing_results f = Inr ([], {})"
  proof (cases f)
    case (Holds j)
    with False have "\<not> is_list j" by (cases j) auto
    with Holds show ?thesis by (simp add: load_existing_results_def path_exists_def read_json_def)
  next
    case Inaccessible
    with nd show ?thesis by simp
  next
    case TooDeep
    with nd show ?thesis by simp
  qed (simp_all add: load_existing_results_def path_exists_def read_json_def)
  with assms show ?thesis by simp
qed

lemmas store_eval = load_existing_results_def path_exists_def read_json_def save_results_def to_dict_def
  link_value_def entry_link_def ustr_def euro_def merge_and_notify_def
  send_email_notification_def get_email_settings_def getenv_def getenv_opt_def no_env_def
  py_int_def py_strip_def is_space_def is_digit_def digits_value_def bool_from_env_def
  is_c_space_def c_strip_def transform_decimal_and_space_def unicode_decimal_def
  unicode_zeros_def accepting_def refusing_lf_def
  spec_new_listings_def spec_dedup_def valid_entry_def listing_A_def listing_B_def listing_C_def
  store_AB_def store_dups_def

text \<open>
  Claim C4, as amended. \<open>load_existing_results\<close> raises nothing unless the file cannot be
  examined or its JSON is nested too deep: it returns for a file that is missing, cannot be
  read or decoded, is no JSON, or holds a JSON value. For a missing file, a file that cannot
  be read or parsed, or content that is not a list, it returns the empty collection. For a
  stored list it returns the entries that are objects with a non-empty string link,
  deduplicated by link with the first occurrence retained, together with the set of their
  links.
\<close>

theorem load_existing_results_post:
  "(f \<noteq> Inaccessible \<and> f \<noteq> TooDeep \<longrightarrow> (\<exists>r. load_existing_results f = Inr r)) \<and>
   (f = Missing \<or> f = Unreadable \<or> f = Undecodable \<or> f = Unparseable \<or>
      (\<exists>j. f = Holds j \<and> \<not> is_list j) \<longrightarrow>
    load_existing_results f = Inr ([], {})) \<and>
   (\<forall>xs. f = Holds (JList xs) \<longrightarrow>
      load_existing_results f = Inr (spec_dedup xs, set (map entry_link (spec_dedup xs))))"
proof (intro conjI)
  show "f \<noteq> Inaccessible \<and> f \<noteq> TooDeep \<longrightarrow> (\<exists>r. load_existing_results f = Inr r)"
    using load_total [of f] by auto
  show "f = Missing \<or> f = Unreadable \<or> f = Undecodable \<or> f = Unparseable \<or>
      (\<exists>j. f = Holds j \<and> \<not> is_list j) \<longrightarrow>
    load_existing_results f = Inr ([], {})"
    by (auto simp: load_existing_results_def path_exists_def read_json_def)
  show "\<forall>xs. f = Holds (JList xs) \<longrightarrow>
      load_existing_results f = Inr (spec_dedup xs, set (map entry_link (spec_dedup xs)))"
    by (simp add: load_list)
qed

theorem load_existing_results_post_witness:
  "load_existing_results store_dups =
     Inr ([to_dict listing_A, to_dict listing_B],
          {JStr (ustr ''https://shop/a''), JStr (ustr ''https://shop/b'')}) \<and>
   load_existing_results Unparseable = Inr ([], {}) \<and>
   load_existing_results (Holds (JObj [])) = Inr ([], {})"
  using load_existing_results_post [of store_dups]
    load_existing_results_post [of Unparseable]
    load_existing_results_post [of "Holds (JObj [])"]
  by (auto simp: store_eval Let_def)

text \<open>
  Claim C4 as stated fails: for a file whose JSON is nested deeper than the recursion limit,
  \<open>json.loads\<close> raises \<open>RecursionError\<close>, which is none of the exceptions that
  \<open>load_existing_results\<close> catches. The function raises, and the run ends with the error
  without writing the store. The function also raises when the file cannot be examined: the
  test \<open>exists()\<close> is made before the \<open>try\<close>.
\<close>

theorem load_existing_results_counterexample:
  "load_existing_results TooDeep = Inl RecursionError \<and>
   load_existing_results Inaccessible = Inl OSError \<and>
   merge_and_notify accepting no_env TooDeep [listing_C] =
     \<lparr>final_store = TooDeep, progress = [], printed = None, notifier_arg = None,
      smtp = NotAttempted, raised = Some RecursionError\<rparr>"
  by (simp add: load_existing_results_def path_exists_def read_json_def merge_and_notify_def)

lemma merge_and_notify_store:
  assumes "load_existing_results f = Inr (stored, known)"
  shows "final_store (merge_and_notify mb ev f run) =
           save_results (stored @ map to_dict (spec_new_listings known run))"
    and "printed (merge_and_notify mb ev f run) = Some (map to_dict (spec_new_listings known run))"
    and "notifier_arg (merge_and_notify mb ev f run) =
           (if spec_new_listings known run = [] then None
            else Some (map to_dict (spec_new_listings known run)))"
  using assms
  by (auto simp: merge_and_notify_def merge_loop_spec spec_new_listings_def Let_def split: sum.splits)




lemma spec_new_distinct:
  assumes "distinct (map entry_link stored)" "known = set (map entry_link stored)"
  shows "distinct (map entry_link (stored @ map to_dict (spec_new_listings known run)))"
proof -
  have m: "map entry_link (map to_dict ls) = map link_value ls" for ls
    by (simp add: entry_link_to_dict)
  have d: "distinct (map link_value (spec_new_listings known run))"
    by (simp add: spec_new_listings_def distinct_keep_first)
  have "\<forall>l \<in> set (spec_new_listings known run). link_value l \<notin> entry_link ` set stored"
    using assms(2)
      set_keep_first_subset [of link_value "filter (\<lambda>l. link_value l \<notin> known) run"]
    by (auto simp: spec_new_listings_def)
  then have "entry_link ` set stored \<inter> link_value ` set (spec_new_listings known run) = {}"
    by (force simp: image_iff)
  with assms(1) d show ?thesis by (simp add: entry_link_to_dict comp_def)
qed

text \<open>
  Claim C3. The entry list that loading returns has no two entries with the same link, and its
  set of known links is the set of those links; the merge loop preserves both; so the list
  that a run saves has no two entries with the same link, and a run saves one whenever the
  store file is loaded.
\<close>

theorem store_links_unique:
  "(\<forall>stored known. load_existing_results f = Inr (stored, known) \<longrightarrow>
      distinct (map entry_link stored) \<and> known = set (map entry_link stored)) \<and>
   (\<forall>stored known stored' known' new'.
      distinct (map entry_link stored) \<and> known = set (map entry_link stored) \<and>
      merge_loop run stored known [] = (stored', known', new') \<longrightarrow>
      distinct (map entry_link stored') \<and> known' = set (map entry_link stored')) \<and>
   (f \<noteq> Inaccessible \<and> f \<noteq> TooDeep \<longrightarrow>
      (\<exists>entries. final_store (merge_and_notify mb ev f run) = save_results entries \<and>
         distinct (map entry_link entries))) \<and>
   (\<forall>entries. final_store (merge_and_notify mb ev f run) = save_results entries \<longrightarrow>
      distinct (map entry_link entries))"
proof (intro conjI allI impI)
  fix stored known
  assume "load_existing_results f = Inr (stored, known)"
  then show "distinct (map entry_link stored)" "known = set (map entry_link stored)"
    using load_distinct by blast+
next
  fix stored known stored' known' new'
  assume a: "distinct (map entry_link stored) \<and> known = set (map entry_link stored) \<and>
      merge_loop run stored known [] = (stored', known', new')"
  then have s: "stored' = stored @ map to_dict (spec_new_listings known run)"
    and k: "known' = known \<union> link_value ` set run"
    by (auto simp: merge_loop_spec spec_new_listings_def)
  from a s show "distinct (map entry_link stored')"
    using spec_new_distinct by blast
  have "link_value ` set (spec_new_listings known run) = link_value ` {l \<in> set run. link_value l \<notin> known}"
    by (simp add: spec_new_listings_def image_keep_first)
  with a s k show "known' = set (map entry_link stored')"
    by (auto simp: entry_link_to_dict image_image)
next
  assume "f \<noteq> Inaccessible \<and> f \<noteq> TooDeep"
  then obtain stored known where l: "load_existing_results f = Inr (stored, known)"
    using load_total [of f] by blast
  from load_distinct [OF l] merge_and_notify_store(1) [OF l, of mb ev run]
  show "\<exists>entries. final_store (merge_and_notify mb ev f run) = save_results entries \<and>
      distinct (map entry_link entries)"
    using spec_new_distinct by blast
next
  fix entries
  assume e: "final_store (merge_and_notify mb ev f run) = save_results entries"
  show "distinct (map entry_link entries)"
  proof (cases "f \<noteq> Inaccessible \<and> f \<noteq> TooDeep")
    case False
    with e show ?thesis
      by (auto simp: merge_and_notify_def load_fails save_results_def)
  next
    case True
    then obtain stored known where l: "load_existing_results f = Inr (stored, known)"
      using load_total [of f] by blast
    from e merge_and_notify_store(1) [OF l, of mb ev run]
    have "entries = stored @ map to_dict (spec_new_listings known run)"
      by (simp add: save_results_def)
    with load_distinct [OF l] show ?thesis
      using spec_new_distinct by blast
  qed
qed

theorem store_links_unique_witness:
  "distinct (map entry_link [to_dict listing_A, to_dict listing_B]) \<and>
   final_store (merge_and_notify accepting no_env store_dups [listing_C, listing_B, listing_C]) =
     save_results [to_dict listing_A, to_dict listing_B, to_dict listing_C] \<and>
   distinct (map entry_link [to_dict listing_A, to_dict listing_B, to_dict listing_C])"
  using store_links_unique [of store_dups "[listing_C, listing_B, listing_C]" accepting no_env]
  by (auto simp: store_eval Let_def)

section \<open>Properties of the listing extractor\<close>

lemmas price_eval = ustr_def euro_def dollar_def comma_def is_space_def py_strip_def py_remove_def
  py_split_def is_digit_def to_lower_def digits_value_def scale10_def parse_exponent_def
  parse_unsigned_def py_float_def find_element_def get_attribute_def hidden_value_def
  visible_value_def read_price_value_def default_price_text_def extract_listing_info_def
  anchor_g1_def title_g1_def tile_sale_def tile_full_price_def tile_hidden_zero_def
  tile_bad_hidden_def tile_sold_out_def tile_no_title_def tile_no_href_def hidden_text_def
  visible_tokens_def spec_price_value_def is_c_space_def c_strip_def
  transform_decimal_and_space_def unicode_decimal_def unicode_zeros_def

lemma py_float_empty: "py_float [] = None"
  by (simp add: py_float_def c_strip_def transform_decimal_and_space_def)

text \<open>
  Texts that \<open>float\<close> and \<open>int\<close> read differently from \<open>strip()\<close>: a unit separator
  is no whitespace for them, a no-break space is, and an Arabic-Indic digit is a digit.
\<close>

lemma number_text_examples:
  "py_float [31, 48] = None \<and> py_float [160, 48, 160] = Some (Finite 0) \<and>
   py_float [1633, 1634] = Some (Finite 12) \<and> py_float (ustr ''1_200.50'') = Some (Finite (2401 / 2)) \<and>
   py_int [31, 50, 53] = None \<and> py_int (ustr '' 5_87 '') = Some 587 \<and>
   py_int [1637, 1640, 1639] = Some 587 \<and> py_strip [31, 48] = [48]"
  by (simp add: price_eval py_int_def Let_def)

lemma read_price_queries:
  "fst (read_price_value e) = [''.price_for_filter''] \<or>
   fst (read_price_value e) = [''.price_for_filter'', ''.wcpbc-price'']"
  by (auto simp: read_price_value_def find_element_def split: sum.splits)

lemma read_price_not_lookup_error:
  "snd (read_price_value e) \<noteq> Inl NoSuchElementException"
  by (auto simp: read_price_value_def find_element_def hidden_value_def visible_value_def Let_def
      split: sum.splits option.splits if_splits)

text \<open>
  Claim C10. \<open>extract_listing_info\<close> resolves the price first: its queries start with those
  of \<open>_read_price_value\<close>. When the resolved price is undetermined or not zero it returns no
  listing and queries neither the link nor the title element. Whenever the link or the title
  element is queried, or the lookup error is raised, the resolved price is zero.
\<close>

theorem price_gate_before_lookups:
  "(\<exists>qs. fst (extract_listing_info e) = fst (read_price_value e) @ qs) \<and>
   (\<forall>ptext pv. snd (read_price_value e) = Inr (ptext, pv) \<and>
        (pv = None \<or> (\<exists>v. pv = Some v \<and> \<not> eq_zero v)) \<longrightarrow>
      snd (extract_listing_info e) = Inr None \<and>
      ''a.totallink'' \<notin> set (fst (extract_listing_info e)) \<and>
      ''.item-compare-title'' \<notin> set (fst (extract_listing_info e))) \<and>
   (''a.totallink'' \<in> set (fst (extract_listing_info e)) \<or>
    ''.item-compare-title'' \<in> set (fst (extract_listing_info e)) \<or>
    snd (extract_listing_info e) = Inl NoSuchElementException \<longrightarrow>
      (\<exists>ptext v. snd (read_price_value e) = Inr (ptext, Some v) \<and> eq_zero v))"
proof (intro conjI allI impI)
  show "\<exists>qs. fst (extract_listing_info e) = fst (read_price_value e) @ qs"
    by (auto simp: extract_listing_info_def find_element_def Let_def
        split: prod.splits sum.splits option.splits)
next
  fix ptext pv
  assume a: "snd (read_price_value e) = Inr (ptext, pv) \<and>
        (pv = None \<or> (\<exists>v. pv = Some v \<and> \<not> eq_zero v))"
  obtain q r where qr: "read_price_value e = (q, r)" by (cases "read_price_value e")
  with a have r: "r = Inr (ptext, pv)" by simp
  from read_price_queries [of e] qr
  have q: "''a.totallink'' \<notin> set q \<and> ''.item-compare-title'' \<notin> set q" by auto
  from a qr r have x: "extract_listing_info e = (q, Inr None)"
    by (auto simp: extract_listing_info_def)
  from x q show "snd (extract_listing_info e) = Inr None"
    "''a.totallink'' \<notin> set (fst (extract_listing_info e))"
    "''.item-compare-title'' \<notin> set (fst (extract_listing_info e))" by simp_all
next
  assume a: "''a.totallink'' \<in> set (fst (extract_listing_info e)) \<or>
    ''.item-compare-title'' \<in> set (fst (extract_listing_info e)) \<or>
    snd (extract_listing_info e) = Inl NoSuchElementException"
  obtain q r where qr: "read_price_value e = (q, r)" by (cases "read_price_value e")
  from read_price_queries [of e] qr
  have q: "''a.totallink'' \<notin> set q \<and> ''.item-compare-title'' \<notin> set q" by auto
  from read_price_not_lookup_error [of e] qr have n: "r \<noteq> Inl NoSuchElementException" by simp
  show "\<exists>ptext v. snd (read_price_value e) = Inr (ptext, Some v) \<and> eq_zero v"
  proof (cases r)
    case (Inl err)
    with qr have "extract_listing_info e = (q, Inl err)"
      by (simp add: extract_listing_info_def)
    with a q n Inl show ?thesis by auto
  next
    case (Inr pr)
    obtain ptext pv where pr: "pr = (ptext, pv)" by (cases pr)
    show ?thesis
    proof (cases "\<exists>v. pv = Some v \<and> eq_zero v")
      case True
      with qr Inr pr show ?thesis by auto
    next
      case False
      with qr Inr pr have "extract_listing_info e = (q, Inr None)"
        by (auto simp: extract_listing_info_def split: option.splits)
      with a q show ?thesis by auto
    qed
  qed
qed

theorem price_gate_before_lookups_witness:
  "extract_listing_info tile_full_price = ([''.price_for_filter'', ''.wcpbc-price''], Inr None) \<and>
   extract_listing_info tile_no_title =
     ([''.price_for_filter'', ''.wcpbc-price'', ''a.totallink'', ''.item-compare-title''],
      Inl NoSuchElementException) \<and>
   snd (read_price_value tile_no_title) = Inr (Some (euro # ustr ''0.00''), Some (Finite 0))"
  using price_gate_before_lookups [of tile_full_price] price_gate_before_lookups [of tile_no_title]
  by (simp add: price_eval Let_def)

lemma py_split_empty: "py_split (py_remove comma (py_remove dollar (py_remove euro []))) = []"
  by (simp add: py_split_def py_remove_def)

lemma visible_tokens_present:
  assumes "visible_tokens e \<noteq> []"
  shows "\<exists>v. map_of (elem_subs e) ''.wcpbc-price'' = Some v \<and> py_strip (elem_text v) \<noteq> [] \<and>
           visible_tokens e =
             py_split (py_remove comma (py_remove dollar (py_remove euro (py_strip (elem_text v)))))"
proof (cases "map_of (elem_subs e) ''.wcpbc-price''")
  case None
  with assms show ?thesis by (simp add: visible_tokens_def)
next
  case (Some v)
  with assms have "py_strip (elem_text v) \<noteq> []"
    using py_split_empty by (auto simp: visible_tokens_def)
  with Some show ?thesis by (simp add: visible_tokens_def)
qed

lemma hidden_authoritative:
  assumes "map_of (elem_subs e) ''.price_for_filter'' = Some h"
    and "get_attribute h ''textContent'' = Some t"
    and "py_float (py_remove comma (py_strip t)) = Some v"
  shows "\<exists>ptext. snd (read_price_value e) = Inr (ptext, Some v)"
proof -
  have "py_strip t \<noteq> []"
    using assms(3) py_float_empty by (auto simp: py_remove_def)
  with assms show ?thesis
    by (auto simp: read_price_value_def find_element_def hidden_value_def visible_value_def
        Let_def split: option.splits)
qed

lemma visible_fallback:
  assumes "map_of (elem_subs e) ''.price_for_filter'' = None \<or>
           (\<exists>h t. map_of (elem_subs e) ''.price_for_filter'' = Some h \<and>
                  get_attribute h ''textContent'' = Some t \<and> py_strip t = [])"
    and "visible_tokens e \<noteq> []"
    and "py_float (last (visible_tokens e)) = Some v"
  shows "\<exists>ptext. snd (read_price_value e) = Inr (Some ptext, Some v)"
proof -
  from visible_tokens_present [OF assms(2)] obtain vis where
    vis: "map_of (elem_subs e) ''.wcpbc-price'' = Some vis" "py_strip (elem_text vis) \<noteq> []"
      "visible_tokens e =
         py_split (py_remove comma (py_remove dollar (py_remove euro (py_strip (elem_text vis)))))"
    by blast
  have h: "hidden_value (snd (find_element e ''.price_for_filter'')) = Inr None"
    using assms(1) by (auto simp: find_element_def hidden_value_def)
  show ?thesis
    using h vis assms(2,3)
    by (auto simp: read_price_value_def find_element_def visible_value_def Let_def)
qed

lemma gate_skips:
  assumes "snd (read_price_value e) = Inr (ptext, pv)"
  shows "snd (extract_listing_info e) = Inr None \<longleftrightarrow> \<not> (\<exists>v. pv = Some v \<and> eq_zero v)"
proof -
  obtain q where q: "read_price_value e = (q, Inr (ptext, pv))"
    using assms by (cases "read_price_value e") auto
  show ?thesis
    by (auto simp: extract_listing_info_def q find_element_def Let_def
        split: option.splits)
qed

lemma gate_finding:
  assumes "snd (read_price_value e) = Inr (ptext, pv)"
    and "map_of (elem_subs e) ''a.totallink'' \<noteq> None"
    and "map_of (elem_subs e) ''.item-compare-title'' \<noteq> None"
  shows "(\<exists>l. snd (extract_listing_info e) = Inr (Some l)) \<longleftrightarrow> (\<exists>v. pv = Some v \<and> eq_zero v)"
proof -
  obtain q where q: "read_price_value e = (q, Inr (ptext, pv))"
    using assms(1) by (cases "read_price_value e") auto
  show ?thesis
    using assms(2,3)
    by (auto simp: extract_listing_info_def q find_element_def Let_def
        split: option.splits)
qed

text \<open>
  Where no call of \<open>float\<close> fails, the price is resolved as the specification says. The
  resolved price value is the parsed hidden price field when that field is present and
  parseable, whatever the visible text. When the hidden field is absent or blank, it is the
  parsed last whitespace-separated token of the visible price text after the removal of euro
  signs, dollar signs and commas. The tile passes the price test exactly when the resolved
  value equals 0.0, and a tile with link and title elements then yields a listing.
\<close>

lemma price_resolution:
  "(\<forall>h t v. map_of (elem_subs e) ''.price_for_filter'' = Some h \<and>
        get_attribute h ''textContent'' = Some t \<and>
        py_float (py_remove comma (py_strip t)) = Some v \<longrightarrow>
      (\<exists>ptext. snd (read_price_value e) = Inr (ptext, Some v))) \<and>
   (\<forall>v. (map_of (elem_subs e) ''.price_for_filter'' = None \<or>
         (\<exists>h t. map_of (elem_subs e) ''.price_for_filter'' = Some h \<and>
                get_attribute h ''textContent'' = Some t \<and> py_strip t = [])) \<and>
        visible_tokens e \<noteq> [] \<and> py_float (last (visible_tokens e)) = Some v \<longrightarrow>
      (\<exists>ptext. snd (read_price_value e) = Inr (Some ptext, Some v))) \<and>
   (\<forall>ptext pv. snd (read_price_value e) = Inr (ptext, pv) \<longrightarrow>
      (snd (extract_listing_info e) = Inr None \<longleftrightarrow> \<not> (\<exists>v. pv = Some v \<and> eq_zero v))) \<and>
   (\<forall>ptext pv. snd (read_price_value e) = Inr (ptext, pv) \<and>
        map_of (elem_subs e) ''a.totallink'' \<noteq> None \<and>
        map_of (elem_subs e) ''.item-compare-title'' \<noteq> None \<longrightarrow>
      ((\<exists>l. snd (extract_listing_info e) = Inr (Some l)) \<longleftrightarrow>
       (\<exists>v. pv = Some v \<and> eq_zero v)))"
  using hidden_authoritative [of e] visible_fallback [of e] gate_skips [of e] gate_finding [of e]
  by blast

text \<open>
  The examples of the specification: a visible original and sale price, a visible full price
  alone, and a hidden price of zero without visible price.
\<close>

lemma price_resolution_examples:
  "snd (read_price_value tile_sale) =
     Inr (Some (euro # ustr ''1,200.00 '' @ euro # ustr ''0.00''), Some (Finite 0)) \<and>
   eq_zero (Finite 0) \<and>
   snd (extract_listing_info tile_sale) =
     Inr (Some \<lparr>title = ustr ''Solar A1.6'',
                price_text = euro # ustr ''1,200.00 '' @ euro # ustr ''0.00'',
                link = Some (ustr ''https://shop/g1'')\<rparr>) \<and>
   snd (read_price_value tile_full_price) =
     Inr (Some (euro # ustr ''1,200.00''), Some (Finite 1200)) \<and>
   \<not> eq_zero (Finite 1200) \<and>
   snd (extract_listing_info tile_full_price) = Inr None \<and>
   snd (read_price_value tile_hidden_zero) = Inr (None, Some (Finite 0)) \<and>
   snd (extract_listing_info tile_hidden_zero) =
     Inr (Some \<lparr>title = ustr ''Solar A1.6'', price_text = euro # ustr ''0.00'',
                link = Some (ustr ''https://shop/g1'')\<rparr>)"
  using price_resolution [of tile_sale] price_resolution [of tile_full_price]
    price_resolution [of tile_hidden_zero]
  by (simp add: price_eval Let_def)

text \<open>
  Claim C2 fails on the code: for a tile whose hidden field is present but holds no number,
  the claim resolves the price from the visible text (here to 0.0, a finding), while
  \<open>float\<close> raises \<open>ValueError\<close> in \<open>_read_price_value\<close>, which catches only the missing
  element; the error leaves \<open>extract_listing_info\<close> and the scan of the page.
\<close>

theorem unparseable_hidden_raises:
  "spec_price_value tile_bad_hidden = Some (Finite 0) \<and>
   read_price_value tile_bad_hidden = ([''.price_for_filter''], Inl ValueError) \<and>
   snd (extract_listing_info tile_bad_hidden) = Inl ValueError \<and>
   scan_items [tile_bad_hidden] [] = Inl ValueError"
  by (simp add: price_eval Let_def)

text \<open>
  Claim C6 fails on the code: a tile without hidden field whose visible price text holds no
  number is not skipped; \<open>float\<close> raises \<open>ValueError\<close>, which leaves
  \<open>extract_listing_info\<close> and the scan of the page.
\<close>

theorem unparseable_price_raises:
  "spec_price_value tile_sold_out = None \<and>
   extract_listing_info tile_sold_out =
     ([''.price_for_filter'', ''.wcpbc-price''], Inl ValueError) \<and>
   scan_items [tile_sale, tile_sold_out, tile_full_price] [] = Inl ValueError"
  by (simp add: price_eval Let_def)

section \<open>Properties of the page fetcher and the crawl\<close>

lemma page_range_list: "PAGE_RANGE = [1, 2, 3, 4, 5, 6, 7, 8, 9, 10]"
  by (simp add: PAGE_RANGE_def upt_rec)

lemmas crawl_eval = price_eval page_range_list collect_free_listings_on_url_def collect_free_listings_on_page_def
  wait_for_listings_def scroll_page_def scroll_loop.simps LISTING_URL_TEMPLATE_def show_nat.simps digit_char_def
  STATIC_LISTING_URLS_def crawl_def main_def page1_def page2_def steady_def
  web_no_container_def web_wait_timeout_def web_missing_title_def web_mixed_def listing_g1_def

lemma crawl_loop_skip:
  assumes "fetch t = Some (lg, Inr [])"
  shows "crawl_loop fetch report (t # ts) run =
           map_option (\<lambda>(lg', r). (lg @ report t 0 # lg', r)) (crawl_loop fetch report ts run)"
  using assms by (cases "crawl_loop fetch report ts run") auto

lemma crawl_loop_abort:
  assumes "fetch t = Some (lg, Inl err)"
  shows "crawl_loop fetch report (t # ts) run = Some (lg, Inl err)"
  using assms by simp

lemma scan_items_abort:
  assumes "scan_items pre acc = Inr acc'" "snd (extract_listing_info e) = Inl err"
  shows "scan_items (pre @ e # post) acc = Inl err"
  using assms
  by (induction pre arbitrary: acc) (auto split: sum.splits option.splits)

lemma scroll_loop_returns:
  "h (Suc (k + d)) = h (k + d) \<Longrightarrow> \<exists>n. scroll_loop h k (h k) = Some n"
proof (induction d arbitrary: k)
  case 0
  then show ?case by (subst scroll_loop.simps) simp
next
  case (Suc d)
  from Suc.prems have "h (Suc (Suc k + d)) = h (Suc k + d)" by simp
  from Suc.IH [OF this] obtain n where "scroll_loop h (Suc k) (h (Suc k)) = Some n" by blast
  then show ?case by (subst scroll_loop.simps) simp
qed


text \<open>
  Claim C5, as amended. When the navigation call for a URL times out or fails with another
  browser error, the fetch prints one line and returns the empty result, and the loop over the
  URLs goes on with the remaining ones exactly as if the URL had yielded nothing. This holds
  for both loops of the run.
\<close>

theorem navigation_failure_recovered:
  assumes "w url = LoadTimeout \<or> (\<exists>msg. w url = LoadFailed msg)"
  shows "\<exists>line.
           (line = TimedOutLoading url \<or> (\<exists>msg. line = FailedToLoad url msg)) \<and>
           collect_free_listings_on_url w url = Some ([line], Inr []) \<and>
           (\<forall>report urls run.
              crawl_loop (collect_free_listings_on_url w) report (url # urls) run =
                map_option (\<lambda>(lg, r). (line # report url 0 # lg, r))
                  (crawl_loop (collect_free_listings_on_url w) report urls run)) \<and>
           (\<forall>report n ns run. LISTING_URL_TEMPLATE n = url \<longrightarrow>
              crawl_loop (collect_free_listings_on_page w) report (n # ns) run =
                map_option (\<lambda>(lg, r). (line # report n 0 # lg, r))
                  (crawl_loop (collect_free_listings_on_page w) report ns run))"
proof -
  have "\<exists>line. (line = TimedOutLoading url \<or> (\<exists>msg. line = FailedToLoad url msg)) \<and>
          collect_free_listings_on_url w url = Some ([line], Inr [])"
    using assms by (auto simp: collect_free_listings_on_url_def)
  then obtain line where
    line: "line = TimedOutLoading url \<or> (\<exists>msg. line = FailedToLoad url msg)"
    and c: "collect_free_listings_on_url w url = Some ([line], Inr [])"
    by blast
  have u: "crawl_loop (collect_free_listings_on_url w) report (url # urls) run =
             map_option (\<lambda>(lg, r). (line # report url 0 # lg, r))
               (crawl_loop (collect_free_listings_on_url w) report urls run)" for report urls run
    using crawl_loop_skip [of "collect_free_listings_on_url w" url "[line]" report urls run] c
    by simp
  have p: "crawl_loop (collect_free_listings_on_page w) report (n # ns) run =
             map_option (\<lambda>(lg, r). (line # report n 0 # lg, r))
               (crawl_loop (collect_free_listings_on_page w) report ns run)"
    if "LISTING_URL_TEMPLATE n = url" for report n ns run
    using crawl_loop_skip [of "collect_free_listings_on_page w" n "[line]" report ns run] c that
    by (simp add: collect_free_listings_on_page_def)
  show ?thesis
  proof (intro exI conjI allI impI)
    show "line = TimedOutLoading url \<or> (\<exists>msg. line = FailedToLoad url msg)"
      by (rule line)
    show "collect_free_listings_on_url w url = Some ([line], Inr [])"
      by (rule c)
    show "crawl_loop (collect_free_listings_on_url w) report (url # urls) run =
            map_option (\<lambda>(lg, r). (line # report url 0 # lg, r))
              (crawl_loop (collect_free_listings_on_url w) report urls run)" for report urls run
      by (rule u)
    show "crawl_loop (collect_free_listings_on_page w) report (n # ns) run =
            map_option (\<lambda>(lg, r). (line # report n 0 # lg, r))
              (crawl_loop (collect_free_listings_on_page w) report ns run)"
      if "LISTING_URL_TEMPLATE n = url" for report n ns run
      using that by (rule p)
  qed
qed

theorem navigation_failure_recovered_witness:
  "crawl_loop (collect_free_listings_on_url web_mixed) UrlScanned [''u1'', ''u2'', ''u3''] [] =
     Some ([TimedOutLoading ''u1'', UrlScanned ''u1'' 0,
            FailedToLoad ''u2'' (ustr ''refused''), UrlScanned ''u2'' 0,
            UrlScanned ''u3'' 1], Inr [listing_g1])"
proof -
  have p1: "web_mixed ''u1'' = LoadTimeout \<or> (\<exists>msg. web_mixed ''u1'' = LoadFailed msg)"
    by (simp add: web_mixed_def)
  have p2: "web_mixed ''u2'' = LoadTimeout \<or> (\<exists>msg. web_mixed ''u2'' = LoadFailed msg)"
    by (simp add: web_mixed_def)
  from navigation_failure_recovered [of web_mixed "''u1''", OF p1]
  have r1: "\<exists>line. collect_free_listings_on_url web_mixed ''u1'' = Some ([line], Inr [])"
    by blast
  from navigation_failure_recovered [of web_mixed "''u2''", OF p2]
  have r2: "\<exists>line. collect_free_listings_on_url web_mixed ''u2'' = Some ([line], Inr [])"
    by blast
  from r1 r2 show ?thesis
    by (simp add: crawl_eval Let_def)
qed

text \<open>
  Claim C5 as stated fails: a timeout of the wait for the listings container, after the page
  was loaded, is a timeout while fetching the URL that is not recovered. The fetch raises, and
  the run does not go on with the remaining URLs.
\<close>

theorem wait_timeout_counterexample:
  "collect_free_listings_on_url web_no_container page1 = Some ([], Inl TimeoutException) \<and>
   crawl_loop (collect_free_listings_on_url web_no_container) UrlScanned [page1, page2] [] =
     Some ([], Inl TimeoutException)"
  by (simp add: crawl_eval)

lemma missing_element_raises:
  assumes "snd (read_price_value e) = Inr (ptext, Some v)" "eq_zero v"
    and "map_of (elem_subs e) ''a.totallink'' = None \<or>
         map_of (elem_subs e) ''.item-compare-title'' = None"
  shows "snd (extract_listing_info e) = Inl NoSuchElementException"
proof -
  obtain q where q: "read_price_value e = (q, Inr (ptext, Some v))"
    using assms(1) by (cases "read_price_value e") auto
  show ?thesis
    using assms(2,3)
    by (auto simp: extract_listing_info_def q find_element_def Let_def split: option.splits)
qed

lemma main_aborts:
  assumes "crawl w = Some (lg, Inl err)"
  shows "main mb w ev f =
           Some \<lparr>final_store = f, progress = lg, printed = None, notifier_arg = None,
                 smtp = NotAttempted, raised = Some err\<rparr>"
  using assms by (simp add: main_def)

text \<open>
  Claim C7, as amended. For a tile whose resolved price is zero and whose link or title element
  is absent, extraction raises the lookup error; it is not caught: the scan of the page ends
  with it whatever tiles follow, the fetch of the URL and the loop over the URLs end with it,
  and the run ends with it before the store is read or written.
\<close>

theorem missing_element_aborts:
  assumes "snd (read_price_value e) = Inr (ptext, Some v)" and "eq_zero v"
    and "map_of (elem_subs e) ''a.totallink'' = None \<or>
         map_of (elem_subs e) ''.item-compare-title'' = None"
  shows "snd (extract_listing_info e) = Inl NoSuchElementException \<and>
         (\<forall>pre post acc acc'. scan_items pre acc = Inr acc' \<longrightarrow>
            scan_items (pre @ e # post) acc = Inl NoSuchElementException) \<and>
         (\<forall>w url h n pre post acc'.
            w url = Loaded True h (pre @ e # post) \<and> scroll_page h = Some n \<and>
            scan_items pre [] = Inr acc' \<longrightarrow>
            collect_free_listings_on_url w url = Some ([], Inl NoSuchElementException) \<and>
            (\<forall>report urls run.
               crawl_loop (collect_free_listings_on_url w) report (url # urls) run =
                 Some ([], Inl NoSuchElementException))) \<and>
         (\<forall>mb w lg ev f. crawl w = Some (lg, Inl NoSuchElementException) \<longrightarrow>
            main mb w ev f =
              Some \<lparr>final_store = f, progress = lg, printed = None, notifier_arg = None,
                    smtp = NotAttempted, raised = Some NoSuchElementException\<rparr>)"
proof (intro conjI allI impI)
  show x: "snd (extract_listing_info e) = Inl NoSuchElementException"
    using missing_element_raises [OF assms] .
  show "scan_items (pre @ e # post) acc = Inl NoSuchElementException"
    if "scan_items pre acc = Inr acc'" for pre post acc acc'
    using scan_items_abort [OF that x] .
  show c: "collect_free_listings_on_url w url = Some ([], Inl NoSuchElementException)"
    if "w url = Loaded True h (pre @ e # post) \<and> scroll_page h = Some n \<and>
        scan_items pre [] = Inr acc'" for w url h n pre post acc'
    using that scan_items_abort [of pre "[]" acc' e NoSuchElementException post] x
    by (simp add: collect_free_listings_on_url_def wait_for_listings_def)
  show "crawl_loop (collect_free_listings_on_url w) report (url # urls) run =
          Some ([], Inl NoSuchElementException)"
    if "w url = Loaded True h (pre @ e # post) \<and> scroll_page h = Some n \<and>
        scan_items pre [] = Inr acc'" for w url h n pre post acc' report urls run
    using c [of w url h pre post n acc'] that by simp
  show "main mb w ev f =
          Some \<lparr>final_store = f, progress = lg, printed = None, notifier_arg = None,
                smtp = NotAttempted, raised = Some NoSuchElementException\<rparr>"
    if "crawl w = Some (lg, Inl NoSuchElementException)" for mb w lg ev f
    using main_aborts [OF that] .
qed

theorem missing_element_aborts_witness:
  "snd (extract_listing_info tile_no_title) = Inl NoSuchElementException \<and>
   scan_items [tile_sale, tile_no_title, tile_full_price] [] = Inl NoSuchElementException \<and>
   main accepting web_missing_title no_env store_AB =
     Some \<lparr>final_store = store_AB, progress = [], printed = None, notifier_arg = None,
           smtp = NotAttempted, raised = Some NoSuchElementException\<rparr>"
proof -
  have p1: "snd (read_price_value tile_no_title) = Inr (Some (euro # ustr ''0.00''), Some (Finite 0))"
    by (simp add: price_eval Let_def)
  have p2: "eq_zero (Finite 0)"
    by simp
  have p3: "map_of (elem_subs tile_no_title) ''a.totallink'' = None \<or>
            map_of (elem_subs tile_no_title) ''.item-compare-title'' = None"
    by (simp add: tile_no_title_def)
  from missing_element_aborts [OF p1 p2 p3]
  have r: "snd (extract_listing_info tile_no_title) = Inl NoSuchElementException"
    by blast
  have s: "scan_items [tile_sale, tile_no_title, tile_full_price] [] = Inl NoSuchElementException"
    by (simp add: price_eval Let_def)
  have m: "main accepting web_missing_title no_env store_AB =
     Some \<lparr>final_store = store_AB, progress = [], printed = None, notifier_arg = None,
           smtp = NotAttempted, raised = Some NoSuchElementException\<rparr>"
    by (simp add: crawl_eval Let_def)
  from r s m show ?thesis by blast
qed

text \<open>
  Claim C7 as stated fails in its last part: the missing element is not the only failure that
  ends the run. Here every tile has its link and title, and the run ends with the timeout of
  the wait for the listings container on the second page.
\<close>

theorem other_unrecovered_path_counterexample:
  "main accepting web_wait_timeout no_env store_AB =
     Some \<lparr>final_store = store_AB, progress = [PageScanned 1 1], printed = None,
           notifier_arg = None, smtp = NotAttempted, raised = Some TimeoutException\<rparr>"
  by (simp add: crawl_eval Let_def)

section \<open>Properties of the notifier\<close>

lemmas env_eval = store_eval env_bad_port_def env_no_user_def env_full_def listing_no_href_def
  to_lower_def

lemma get_settings_skip:
  assumes "py_int (getenv ev ''EMAIL_PORT'' (ustr ''587'')) \<noteq> None"
    and "falsy (ev ''EMAIL_USER'') \<or> falsy (ev ''EMAIL_PASSWORD'') \<or> falsy (ev ''EMAIL_TO'')"
  shows "get_email_settings ev = Inr None"
  using assms by (auto simp: get_email_settings_def Let_def split: option.splits)

lemma merge_and_notify_skip:
  assumes "\<And>listings. send_email_notification mb ev listings = Inr NotAttempted"
  shows "smtp (merge_and_notify mb ev f run) = NotAttempted \<and>
         (f \<noteq> Inaccessible \<and> f \<noteq> TooDeep \<longrightarrow>
            raised (merge_and_notify mb ev f run) = None)"
proof (cases "f \<noteq> Inaccessible \<and> f \<noteq> TooDeep")
  case False
  then show ?thesis
    by (auto simp: merge_and_notify_def load_fails)
next
  case True
  then obtain stored known where l: "load_existing_results f = Inr (stored, known)"
    using load_total [of f] by blast
  show ?thesis
    by (simp add: merge_and_notify_def l assms Let_def split: prod.splits)
qed

text \<open>
  Claim C9, as amended. When \<open>EMAIL_PORT\<close> is unset or holds a text that \<open>int\<close> accepts, and
  \<open>EMAIL_USER\<close>, \<open>EMAIL_PASSWORD\<close> or \<open>EMAIL_TO\<close> is unset or empty, the notification is
  skipped for every list of new entries, whatever the email library would do with a message:
  no SMTP session is attempted and the notifier raises no error; a run whose store file is
  loaded ends without error.
\<close>

theorem notification_skipped:
  assumes "py_int (getenv ev ''EMAIL_PORT'' (ustr ''587'')) \<noteq> None"
    and "falsy (ev ''EMAIL_USER'') \<or> falsy (ev ''EMAIL_PASSWORD'') \<or> falsy (ev ''EMAIL_TO'')"
  shows "get_email_settings ev = Inr None \<and>
         (\<forall>mb listings. send_email_notification mb ev listings = Inr NotAttempted) \<and>
         (\<forall>mb f run. smtp (merge_and_notify mb ev f run) = NotAttempted \<and>
            (f \<noteq> Inaccessible \<and> f \<noteq> TooDeep \<longrightarrow>
               raised (merge_and_notify mb ev f run) = None))"
proof -
  have g: "get_email_settings ev = Inr None"
    using get_settings_skip [OF assms] .
  then have s: "send_email_notification mb ev listings = Inr NotAttempted" for mb listings
    by (simp add: send_email_notification_def)
  from g s merge_and_notify_skip [of _ ev] show ?thesis by simp
qed

theorem notification_skipped_witness:
  "py_int (getenv env_no_user ''EMAIL_PORT'' (ustr ''587'')) = Some 587 \<and>
   env_no_user ''EMAIL_USER'' = None \<and>
   send_email_notification refusing_lf env_no_user [to_dict listing_C] = Inr NotAttempted \<and>
   raised (merge_and_notify refusing_lf env_no_user store_AB [listing_C]) = None \<and>
   send_email_notification accepting env_full [to_dict listing_C] =
     Inr (Attempted \<lparr>host = ustr ''smtp.gmail.com'', port = 587,
                      user = ustr ''bot@example.org'', password = ustr ''secret'',
                      sender = ustr ''bot@example.org'', recipient = ustr ''me@example.org'',
                      use_tls = True\<rparr> [to_dict listing_C])"
proof -
  have p1: "py_int (getenv env_no_user ''EMAIL_PORT'' (ustr ''587'')) \<noteq> None"
    by (simp add: env_eval Let_def)
  have p2: "falsy (env_no_user ''EMAIL_USER'') \<or> falsy (env_no_user ''EMAIL_PASSWORD'') \<or>
            falsy (env_no_user ''EMAIL_TO'')"
    by (simp add: env_no_user_def)
  have p3: "store_AB \<noteq> Inaccessible \<and> store_AB \<noteq> TooDeep"
    by (simp add: store_AB_def)
  from notification_skipped [OF p1 p2] p3
  have r: "send_email_notification refusing_lf env_no_user [to_dict listing_C] = Inr NotAttempted"
    and m: "raised (merge_and_notify refusing_lf env_no_user store_AB [listing_C]) = None"
    by blast+
  have a: "py_int (getenv env_no_user ''EMAIL_PORT'' (ustr ''587'')) = Some 587"
    by (simp add: env_eval Let_def)
  have b: "env_no_user ''EMAIL_USER'' = None"
    by (simp add: env_no_user_def)
  have c: "send_email_notification accepting env_full [to_dict listing_C] =
     Inr (Attempted \<lparr>host = ustr ''smtp.gmail.com'', port = 587,
                      user = ustr ''bot@example.org'', password = ustr ''secret'',
                      sender = ustr ''bot@example.org'', recipient = ustr ''me@example.org'',
                      use_tls = True\<rparr> [to_dict listing_C])"
    by (simp add: env_eval Let_def)
  from r m a b c show ?thesis by blast
qed

text \<open>
  Claim C9 as stated fails: with \<open>EMAIL_USER\<close> unset and \<open>EMAIL_PORT\<close> set to a text that is
  no integer, \<open>get_email_settings\<close> raises \<open>ValueError\<close> before it looks at the credentials;
  the run has saved the store by then and ends with the error.
\<close>

theorem notification_skipped_counterexample:
  "env_bad_port ''EMAIL_USER'' = None \<and>
   send_email_notification accepting env_bad_port [to_dict listing_C] = Inl ValueError \<and>
   raised (merge_and_notify accepting env_bad_port store_AB [listing_C]) = Some ValueError \<and>
   final_store (merge_and_notify accepting env_bad_port store_AB [listing_C]) =
     save_results [to_dict listing_A, to_dict listing_B, to_dict listing_C]"
  by (simp add: env_eval Let_def)

section \<open>Two runs in succession\<close>

lemma keep_first_distinct: "distinct (map k xs) \<Longrightarrow> keep_first k xs = xs"
proof (induction xs)
  case Nil
  then show ?case by simp
next
  case (Cons x xs)
  from Cons.prems have "k x \<notin> k ` set xs" by simp
  then have "\<forall>y \<in> set xs. k y \<noteq> k x" by (metis imageI)
  then have "filter (\<lambda>y. k y \<noteq> k x) xs = xs"
    by (simp add: filter_id_conv)
  with Cons show ?case by simp
qed

lemma valid_to_dict:
  assumes "link l = Some s" "s \<noteq> []"
  shows "valid_entry (to_dict l)"
  using assms by (simp add: valid_entry_def entry_link_to_dict link_value_def) (simp add: to_dict_def)

lemma load_valid:
  assumes "load_existing_results f = Inr (stored, known)"
  shows "\<forall>e \<in> set stored. valid_entry e"
proof (cases "\<exists>xs. f = Holds (JList xs)")
  case True
  then obtain xs where "f = Holds (JList xs)" by blast
  with assms have "stored = spec_dedup xs" by (simp add: load_list)
  then show ?thesis
    using set_keep_first_subset [of entry_link "filter valid_entry xs"]
    by (auto simp: spec_dedup_def)
next
  case False
  from assms have nd: "f \<noteq> Inaccessible \<and> f \<noteq> TooDeep"
    by (rule load_returns)
  have "load_existing_results f = Inr ([], {})"
  proof (cases f)
    case (Holds j)
    with False have "\<not> is_list j" by (cases j) auto
    with Holds show ?thesis by (simp add: load_existing_results_def path_exists_def read_json_def)
  next
    case Inaccessible
    with nd show ?thesis by simp
  next
    case TooDeep
    with nd show ?thesis by simp
  qed (simp_all add: load_existing_results_def path_exists_def read_json_def)
  with assms show ?thesis by simp
qed

lemma load_saved:
  assumes "\<forall>e \<in> set es. valid_entry e" "distinct (map entry_link es)"
  shows "load_existing_results (save_results es) = Inr (es, set (map entry_link es))"
proof -
  from assms(1) have "filter valid_entry es = es" by (simp add: filter_id_conv)
  with assms(2) have "spec_dedup es = es" by (simp add: spec_dedup_def keep_first_distinct)
  then show ?thesis by (simp add: save_results_def load_list)
qed

lemma spec_new_none:
  assumes "link_value ` set run \<subseteq> known"
  shows "spec_new_listings known run = []"
proof -
  from assms have "filter (\<lambda>l. link_value l \<notin> known) run = []"
    by (auto simp: filter_empty_conv)
  then show ?thesis by (simp add: spec_new_listings_def)
qed

lemma merge_and_notify_nothing_new:
  assumes "load_existing_results f = Inr (stored, known)" "spec_new_listings known run = []"
  shows "merge_and_notify mb ev f run =
           \<lparr>final_store = save_results stored, progress = [], printed = Some [],
            notifier_arg = None, smtp = NotAttempted, raised = None\<rparr>"
  using assms
  by (simp add: merge_and_notify_def merge_loop_spec spec_new_listings_def Let_def)

lemma second_merge:
  assumes "\<forall>l \<in> set run. \<exists>s. link l = Some s \<and> s \<noteq> []" and "f \<noteq> Inaccessible \<and> f \<noteq> TooDeep"
  shows "merge_and_notify mb' ev' (final_store (merge_and_notify mb ev f run)) run =
           \<lparr>final_store = final_store (merge_and_notify mb ev f run), progress = [],
            printed = Some [], notifier_arg = None, smtp = NotAttempted, raised = None\<rparr>"
proof -
  obtain stored known where l: "load_existing_results f = Inr (stored, known)"
    using load_total [OF assms(2)] by blast
  let ?new = "spec_new_listings known run"
  let ?all = "stored @ map to_dict ?new"
  have fs: "final_store (merge_and_notify mb ev f run) = save_results ?all"
    using merge_and_notify_store(1) [OF l] .
  from load_distinct [OF l] have d: "distinct (map entry_link stored)"
    and k: "known = set (map entry_link stored)" by simp_all
  have "set ?new \<subseteq> set run"
    using set_keep_first_subset [of link_value "filter (\<lambda>l. link_value l \<notin> known) run"]
    by (auto simp: spec_new_listings_def)
  with assms(1) have "\<forall>l \<in> set ?new. valid_entry (to_dict l)"
    using valid_to_dict by blast
  with load_valid [OF l] have v: "\<forall>e \<in> set ?all. valid_entry e" by auto
  have da: "distinct (map entry_link ?all)"
    using spec_new_distinct [OF d k] .
  have l2: "load_existing_results (save_results ?all) = Inr (?all, set (map entry_link ?all))"
    using load_saved [OF v da] .
  have "link_value ` set ?new = link_value ` {l \<in> set run. link_value l \<notin> known}"
    by (simp add: spec_new_listings_def image_keep_first)
  then have "link_value ` set run \<subseteq> set (map entry_link ?all)"
    using k by (auto simp: entry_link_to_dict image_image)
  then have n: "spec_new_listings (set (map entry_link ?all)) run = []"
    by (rule spec_new_none)
  show ?thesis
    unfolding fs using merge_and_notify_nothing_new [OF l2 n] .
qed

text \<open>
  Claim C8, as amended. When the crawl of the page content completes, the store file is one
  that loading returns for, and every listing found has a non-empty string link, a second run
  over the same content, started on the store that the first run saved, finds no new entry:
  it prints the empty list, does not call the notifier, raises nothing, and saves the store
  unchanged. The environment and the email library of either run do not matter.
\<close>

theorem second_run_idempotent:
  assumes "crawl w = Some (lg, Inr run)"
    and "\<forall>l \<in> set run. \<exists>s. link l = Some s \<and> s \<noteq> []"
    and "f \<noteq> Inaccessible \<and> f \<noteq> TooDeep"
  shows "\<exists>r1 r2. main mb w ev f = Some r1 \<and> main mb' w ev' (final_store r1) = Some r2 \<and>
           printed r2 = Some [] \<and> notifier_arg r2 = None \<and> smtp r2 = NotAttempted \<and>
           raised r2 = None \<and> final_store r2 = final_store r1"
proof -
  let ?r1 = "(merge_and_notify mb ev f run)\<lparr>progress := lg\<rparr>"
  let ?r2 = "(merge_and_notify mb' ev' (final_store ?r1) run)\<lparr>progress := lg\<rparr>"
  have 1: "main mb w ev f = Some ?r1"
    using assms(1) by (simp add: main_def)
  have 2: "main mb' w ev' (final_store ?r1) = Some ?r2"
    using assms(1) by (simp add: main_def)
  have 3: "printed ?r2 = Some [] \<and> notifier_arg ?r2 = None \<and> smtp ?r2 = NotAttempted \<and>
           raised ?r2 = None \<and> final_store ?r2 = final_store ?r1"
    using second_merge [OF assms(2,3), of mb' ev' mb ev] by simp
  from 1 2 3 show ?thesis by blast
qed

lemmas run_eval = crawl_eval store_eval env_no_user_def env_full_def env_bad_port_def
  listing_no_href_def web_no_href_def web_one_free_def

lemma crawl_one_free: "\<exists>lg. crawl web_one_free = Some (lg, Inr [listing_g1])"
  by (simp add: run_eval Let_def)

lemma crawl_no_href: "map_option snd (crawl web_no_href) = Some (Inr [listing_no_href])"
  by (simp add: run_eval Let_def)

theorem second_run_idempotent_witness:
  "\<exists>r1 r2. main accepting web_one_free no_env store_AB = Some r1 \<and>
     main refusing_lf web_one_free env_full (final_store r1) = Some r2 \<and>
     printed r2 = Some [] \<and> notifier_arg r2 = None \<and> smtp r2 = NotAttempted \<and>
     raised r2 = None \<and> final_store r2 = final_store r1 \<and>
     final_store r1 = save_results [to_dict listing_A, to_dict listing_B, to_dict listing_g1]"
proof -
  obtain lg where c: "crawl web_one_free = Some (lg, Inr [listing_g1])"
    using crawl_one_free by blast
  have v: "\<forall>l \<in> set [listing_g1]. \<exists>s. link l = Some s \<and> s \<noteq> []"
    by (simp add: listing_g1_def ustr_def)
  have t: "store_AB \<noteq> Inaccessible \<and> store_AB \<noteq> TooDeep"
    by (simp add: store_AB_def)
  from second_run_idempotent [OF c v t, of accepting no_env refusing_lf env_full]
  obtain r1 r2 where r: "main accepting web_one_free no_env store_AB = Some r1"
    "main refusing_lf web_one_free env_full (final_store r1) = Some r2"
    "printed r2 = Some []" "notifier_arg r2 = None" "smtp r2 = NotAttempted"
    "raised r2 = None" "final_store r2 = final_store r1"
    by blast
  have "main accepting web_one_free no_env store_AB =
          Some ((merge_and_notify accepting no_env store_AB [listing_g1])\<lparr>progress := lg\<rparr>)"
    using c by (simp add: main_def)
  with r(1) have "final_store r1 =
      final_store (merge_and_notify accepting no_env store_AB [listing_g1])"
    by auto
  also have "\<dots> = save_results [to_dict listing_A, to_dict listing_B, to_dict listing_g1]"
    by (simp add: store_eval listing_g1_def Let_def)
  finally have "final_store r1 =
      save_results [to_dict listing_A, to_dict listing_B, to_dict listing_g1]" .
  with r show ?thesis by blast
qed

text \<open>
  Claim C8 as stated fails: a zero-price tile whose anchor has no \<open>href\<close> yields a listing
  whose link is \<open>None\<close>. The first run saves its entry; loading drops an entry without a
  string link, so the second run over the same page finds the listing new again and passes it
  to the notifier again.
\<close>

theorem second_run_idempotent_counterexample:
  "map_option snd (crawl web_no_href) = Some (Inr [listing_no_href]) \<and>
   final_store (merge_and_notify accepting no_env Missing [listing_no_href]) =
     save_results [to_dict listing_no_href] \<and>
   printed (merge_and_notify accepting no_env (save_results [to_dict listing_no_href]) [listing_no_href]) =
     Some [to_dict listing_no_href] \<and>
   notifier_arg (merge_and_notify accepting no_env (save_results [to_dict listing_no_href])
     [listing_no_href]) = Some [to_dict listing_no_href]"
  using crawl_no_href
  by (simp add: store_eval listing_no_href_def Let_def)


end
